theory Spec2Isabelle
  imports Main "HOL-Library.AList"
begin

section \<open>Python values\<close>

text \<open>
  The client of \<^verbatim>\<open>src/azure_api.py\<close> handles the bodies of the service's answers as
  loosely typed decoded JSON: \<^verbatim>\<open>None\<close>, booleans, numbers, strings, lists and
  dictionaries with string keys, and raw bytes when a caller asks for the undecoded body.
  JSON numbers are integers here; a dictionary is an association list in insertion order,
  read at its first binding of a key.
\<close>

datatype pyval =
    PNone
  | PBool bool
  | PInt int
  | PStr string
  | PBytes string
  | PList "pyval list"
  | PDict "(string \<times> pyval) list"

text \<open>Truth value of an object, as \<^verbatim>\<open>if x:\<close> and \<^verbatim>\<open>not x\<close> test it.\<close>

fun truthy :: "pyval \<Rightarrow> bool" where
  "truthy PNone = False"
| "truthy (PBool b) = b"
| "truthy (PInt i) = (i \<noteq> 0)"
| "truthy (PStr s) = (s \<noteq> [])"
| "truthy (PBytes s) = (s \<noteq> [])"
| "truthy (PList xs) = (xs \<noteq> [])"
| "truthy (PDict kvs) = (kvs \<noteq> [])"

subsection \<open>Formatting: \<^verbatim>\<open>str\<close>, \<^verbatim>\<open>repr\<close> and f-string fields\<close>

fun digits_of :: "nat \<Rightarrow> string" where
  "digits_of n =
     (if n < 10 then [''0123456789'' ! n]
      else digits_of (n div 10) @ [''0123456789'' ! (n mod 10)])"

declare digits_of.simps [simp del]

definition str_int :: "int \<Rightarrow> string" where
  "str_int i = (if i < 0 then CHR ''-'' # digits_of (nat (- i)) else digits_of (nat i))"

definition hex2 :: "nat \<Rightarrow> string" where
  "hex2 n = [''0123456789abcdef'' ! ((n div 16) mod 16), ''0123456789abcdef'' ! (n mod 16)]"

text \<open>
  \<^verbatim>\<open>repr\<close> of a string: single quotes, unless the string holds a single quote and no
  double quote; backslash, the chosen quote, tab, newline, carriage return and the other
  control characters are escaped. The model's characters are bytes; bytes from 128 on are
  kept in a string and escaped in a bytes object.
\<close>

definition quote_for :: "string \<Rightarrow> char" where
  "quote_for s =
     (if CHR 0x27 \<in> set s \<and> CHR 0x22 \<notin> set s then CHR 0x22 else CHR 0x27)"

definition escape_char :: "bool \<Rightarrow> char \<Rightarrow> char \<Rightarrow> string" where
  "escape_char is_bytes q ch =
     (if ch = q \<or> ch = CHR 0x5C then [CHR 0x5C, ch]
      else if ch = CHR 0x09 then [CHR 0x5C, CHR ''t'']
      else if ch = CHR 0x0A then [CHR 0x5C, CHR ''n'']
      else if ch = CHR 0x0D then [CHR 0x5C, CHR ''r'']
      else if (of_char ch :: nat) < 32 \<or> (of_char ch :: nat) = 127
              \<or> (is_bytes \<and> 128 \<le> (of_char ch :: nat))
        then [CHR 0x5C, CHR ''x''] @ hex2 (of_char ch)
      else [ch])"

definition repr_str :: "bool \<Rightarrow> string \<Rightarrow> string" where
  "repr_str is_bytes s =
     (let q = quote_for s in [q] @ concat (map (escape_char is_bytes q) s) @ [q])"

fun join :: "string \<Rightarrow> string list \<Rightarrow> string" where
  "join sep [] = []"
| "join sep [x] = x"
| "join sep (x # y # ys) = x @ sep @ join sep (y # ys)"

primrec py_repr :: "pyval \<Rightarrow> string" where
  "py_repr PNone = ''None''"
| "py_repr (PBool b) = (if b then ''True'' else ''False'')"
| "py_repr (PInt i) = str_int i"
| "py_repr (PStr s) = repr_str False s"
| "py_repr (PBytes s) = CHR ''b'' # repr_str True s"
| "py_repr (PList xs) = ''['' @ join '', '' (map py_repr xs) @ '']''"
| "py_repr (PDict kvs) =
     ''{'' @ join '', '' (map (\<lambda>kv. repr_str False (fst kv) @ '': '' @ snd kv)
                             (map (map_prod id py_repr) kvs)) @ ''}''"

text \<open>\<^verbatim>\<open>str(x)\<close>, which is also what a field \<^verbatim>\<open>{x}\<close> of an f-string inserts.\<close>

fun py_str :: "pyval \<Rightarrow> string" where
  "py_str (PStr s) = s"
| "py_str v = py_repr v"

section \<open>Exceptions and results\<close>

datatype error =
    ValueError string
  | TypeError
  | KeyError string
  | IndexError
  | AttributeError
  | PyException string

datatype 'a result = Raised error | Returned 'a

subsection \<open>Operations on objects that can raise\<close>

text \<open>\<^verbatim>\<open>x['key']\<close>: only a dictionary can be subscripted by a string.\<close>

fun subscript :: "pyval \<Rightarrow> string \<Rightarrow> pyval result" where
  "subscript (PDict kvs) k =
     (case map_of kvs k of None \<Rightarrow> Raised (KeyError k) | Some v \<Rightarrow> Returned v)"
| "subscript v k = Raised TypeError"

text \<open>
  \<^verbatim>\<open>x[0]\<close>, used on an object that the code has found truthy: the first element of a
  list, the first character of a string, the first byte of a bytes object; a dictionary
  decoded from JSON has no key \<^verbatim>\<open>0\<close>.
\<close>

fun index0 :: "pyval \<Rightarrow> pyval result" where
  "index0 (PList xs) = (case xs of [] \<Rightarrow> Raised IndexError | x # _ \<Rightarrow> Returned x)"
| "index0 (PStr s) = (case s of [] \<Rightarrow> Raised IndexError | ch # _ \<Rightarrow> Returned (PStr [ch]))"
| "index0 (PBytes s) =
     (case s of [] \<Rightarrow> Raised IndexError | ch # _ \<Rightarrow> Returned (PInt (of_char ch)))"
| "index0 (PDict kvs) = Raised (KeyError ''0'')"
| "index0 v = Raised TypeError"

text \<open>\<^verbatim>\<open>x.get('key')\<close>: a method of dictionaries only.\<close>

fun py_get :: "pyval \<Rightarrow> string \<Rightarrow> pyval result" where
  "py_get (PDict kvs) k = (case map_of kvs k of None \<Rightarrow> Returned PNone | Some v \<Rightarrow> Returned v)"
| "py_get v k = Raised AttributeError"

text \<open>\<^verbatim>\<open>for x in v\<close>: the elements the loop visits, or the TypeError of an object that
  cannot be iterated.\<close>

fun py_iter :: "pyval \<Rightarrow> pyval list result" where
  "py_iter (PList xs) = Returned xs"
| "py_iter (PStr s) = Returned (map (\<lambda>ch. PStr [ch]) s)"
| "py_iter (PBytes s) = Returned (map (\<lambda>ch. PInt (of_char ch)) s)"
| "py_iter (PDict kvs) = Returned (map (\<lambda>kv. PStr (fst kv)) kvs)"
| "py_iter v = Raised TypeError"

text \<open>\<^verbatim>\<open>s.split(sep)\<close> on a string, for a separator of one character: never empty.\<close>

fun split_on :: "char \<Rightarrow> string \<Rightarrow> string list" where
  "split_on sep [] = [[]]"
| "split_on sep (ch # s) =
     (if ch = sep then [] # split_on sep s
      else (case split_on sep s of [] \<Rightarrow> [[ch]] | p # ps \<Rightarrow> (ch # p) # ps))"

text \<open>\<^verbatim>\<open>v.split('-')[0]\<close>: strings split; a bytes object rejects the string separator;
  nothing else has the method.\<close>

fun split_first :: "pyval \<Rightarrow> pyval result" where
  "split_first (PStr s) =
     (case split_on CHR ''-'' s of [] \<Rightarrow> Raised IndexError | p # _ \<Rightarrow> Returned (PStr p))"
| "split_first (PBytes s) = Raised TypeError"
| "split_first v = Raised AttributeError"

text \<open>Dictionary merge \<^verbatim>\<open>{**a, **b}\<close>: the bindings of \<open>b\<close> go into \<open>a\<close> from left to
  right, a key already present keeping its place.\<close>

definition dict_merge ::
  "(string \<times> pyval) list \<Rightarrow> (string \<times> pyval) list \<Rightarrow> (string \<times> pyval) list" where
  "dict_merge a b = fold (\<lambda>kv. AList.update (fst kv) (snd kv)) b a"

section \<open>The service and the world\<close>

text \<open>
  One HTTP attempt either raises (connection failure, timeout) or gives a response. Of a
  response the code reads the status code and the content; \<open>decoded\<close> is what
  \<^verbatim>\<open>jsons.loads(res.content.decode('utf-8'))\<close> returns for that content, and \<open>None\<close>
  when the decoding raises.
\<close>

record response =
  status_code :: int
  content :: string
  decoded :: "pyval option"

datatype outcome = Response response | TransportError string

datatype verb = GET | POST | PATCH

text \<open>The keyword arguments \<^verbatim>\<open>request_args\<close> of one attempt, with the function of
  \<^verbatim>\<open>requests\<close> that receives them. \<open>body\<close> is the \<^verbatim>\<open>data\<close> entry, present only for
  truthy data (it stands for the serialised text).\<close>

record request =
  verb :: verb
  url :: string
  headers :: "(string \<times> string) list"
  timeout :: int
  params :: "(string \<times> pyval) list"
  body :: "pyval option"

text \<open>
  The world holds the answers the service will give to the coming attempts, in order,
  and the trace of what the client has done so far: the attempts it sent and the sleeps
  it took. When the script is used up the network is down: an attempt raises.
  Log output is not part of the trace.
\<close>

datatype event = Sent request | Slept nat

record world =
  script :: "outcome list"
  trace :: "event list"

type_synonym 'a action = "world \<Rightarrow> 'a result \<times> world"

definition ret :: "'a \<Rightarrow> 'a action" where
  "ret v w = (Returned v, w)"

definition raise :: "error \<Rightarrow> 'a action" where
  "raise e w = (Raised e, w)"

definition lift :: "'a result \<Rightarrow> 'a action" where
  "lift r w = (r, w)"

text \<open>Sequencing: an exception of the first action leaves the second unrun.\<close>

definition bind :: "'a action \<Rightarrow> ('a \<Rightarrow> 'b action) \<Rightarrow> 'b action" where
  "bind m f w = (case m w of (Raised e, w') \<Rightarrow> (Raised e, w') | (Returned v, w') \<Rightarrow> f v w')"

section \<open>The client\<close>

definition MAX_AZURE_API_RETRIES :: int where
  "MAX_AZURE_API_RETRIES = 3"

definition INVOKE_REST_API_TIMEOUT_SECONDS :: int where
  "INVOKE_REST_API_TIMEOUT_SECONDS = 30"

text \<open>Modelled from the spec: the constant \<^verbatim>\<open>HTTPResponseCode.INTERNAL_SERVER_ERROR\<close> is
  used by the source and declared nowhere in it; the spec classifies a status from 500 on
  as a server error.\<close>

definition INTERNAL_SERVER_ERROR :: int where
  "INTERNAL_SERVER_ERROR = 500"

record client =
  base_url :: string
  base_params :: "(string \<times> pyval) list"
  base_headers :: "(string \<times> string) list"
  retries :: int

text \<open>The constructor. It stores the header set under the name \<^verbatim>\<open>headers\<close>, and
  \<^verbatim>\<open>__run_request\<close> reads it as \<^verbatim>\<open>base_headers\<close>: the model has the one field. The
  modules \<^verbatim>\<open>jsons\<close> and \<^verbatim>\<open>time\<close>, which the source uses and does not import, are
  taken to be the libraries of those names.\<close>

definition AzureAPI :: "string \<Rightarrow> string \<Rightarrow> int \<Rightarrow> client" where
  "AzureAPI organization project n =
     \<lparr> base_url = ''https://dev.azure.com/'' @ organization @ ''/'' @ project @ ''/_apis'',
       base_params = [(''api-version'', PStr ''5.1'')],
       base_headers = [(''Content-Type'', ''application/json'')],
       retries = n \<rparr>"

subsection \<open>The request executor\<close>

text \<open>\<^verbatim>\<open>res.raise_for_status()\<close> of the \<^verbatim>\<open>requests\<close> library raises for a status from
  400 up to 599 and returns for any other.\<close>

definition raise_for_status_raises :: "int \<Rightarrow> bool" where
  "raise_for_status_raises st = (400 \<le> st \<and> st < 600)"

text \<open>What one pass through the \<^verbatim>\<open>try\<close> block comes to: a \<^verbatim>\<open>return\<close>, an exception
  for the handler, or the end of the block with neither.\<close>

datatype attempt = Done pyval | Failed | Fell_through

definition try_body :: "bool \<Rightarrow> outcome \<Rightarrow> attempt" where
  "try_body as_json oc =
     (case oc of
        TransportError e \<Rightarrow> Failed
      | Response res \<Rightarrow>
          if status_code res = 200 \<or> status_code res = 201 then
            (if as_json then (case decoded res of None \<Rightarrow> Failed | Some v \<Rightarrow> Done v)
             else Done (PBytes (content res)))
          else if status_code res \<ge> INTERNAL_SERVER_ERROR then
            (if raise_for_status_raises (status_code res) then Failed else Fell_through)
          else Done PNone)"

definition next_outcome :: "world \<Rightarrow> outcome" where
  "next_outcome w = (case script w of [] \<Rightarrow> TransportError ''connection failed'' | oc # _ \<Rightarrow> oc)"

definition send :: "request \<Rightarrow> world \<Rightarrow> world" where
  "send args w = w\<lparr>script := tl (script w), trace := trace w @ [Sent args]\<rparr>"

definition sleep :: "nat \<Rightarrow> world \<Rightarrow> world" where
  "sleep secs w = w\<lparr>trace := trace w @ [Slept secs]\<rparr>"

text \<open>The \<^verbatim>\<open>while retry < self.retries\<close> loop of \<^verbatim>\<open>__run_request\<close>, and the end of the
  function after it, where nothing is returned.\<close>

function run_loop :: "client \<Rightarrow> request \<Rightarrow> bool \<Rightarrow> nat \<Rightarrow> pyval action" where
  "run_loop c args as_json retry w =
     (if int retry < retries c then
        (case try_body as_json (next_outcome w) of
           Done v \<Rightarrow> (Returned v, send args w)
         | Failed \<Rightarrow>
             run_loop c args as_json (Suc retry) (sleep (2 ^ (Suc retry + 1)) (send args w))
         | Fell_through \<Rightarrow> run_loop c args as_json retry (send args w))
      else (Returned PNone, w))"
  by pat_completeness auto

termination run_loop
proof (relation "measure (\<lambda>(c, args, as_json, retry, w).
                   nat (retries c - int retry) + length (script w))", goal_cases)
  case 1
  show ?case by simp
next
  case (2 c args as_json retry w)
  then show ?case by (simp add: sleep_def send_def)
next
  case (3 c args as_json retry w)
  then have "script w \<noteq> []"
    by (auto simp: try_body_def next_outcome_def)
  then show ?case
    by (cases "script w") (simp_all add: send_def)
qed

declare run_loop.simps [simp del]

text \<open>\<^verbatim>\<open>__run_request\<close>: the arguments of the attempts are built once, before the
  loop; \<^verbatim>\<open>params or {}\<close> makes absent parameters an empty dictionary, and \<^verbatim>\<open>if data\<close>
  leaves out a body that is absent or empty.\<close>

definition request_args ::
  "client \<Rightarrow> verb \<Rightarrow> string \<Rightarrow> (string \<times> pyval) list option \<Rightarrow> pyval option \<Rightarrow> request" where
  "request_args c request_type path ps data =
     \<lparr> verb = request_type,
       url = base_url c @ ''/'' @ path,
       headers = base_headers c,
       timeout = INVOKE_REST_API_TIMEOUT_SECONDS,
       params = dict_merge (base_params c) (case ps of None \<Rightarrow> [] | Some d \<Rightarrow> d),
       body = (case data of None \<Rightarrow> None | Some d \<Rightarrow> if truthy d then Some d else None) \<rparr>"

definition run_request ::
  "client \<Rightarrow> verb \<Rightarrow> string \<Rightarrow> bool \<Rightarrow> (string \<times> pyval) list option \<Rightarrow> pyval option
     \<Rightarrow> pyval action" where
  "run_request c request_type path as_json ps data =
     run_loop c (request_args c request_type path ps data) as_json 0"

definition run_get_request ::
  "client \<Rightarrow> string \<Rightarrow> (string \<times> pyval) list option \<Rightarrow> bool \<Rightarrow> pyval action" where
  "run_get_request c path ps as_json = run_request c GET path as_json ps None"

definition run_post_request ::
  "client \<Rightarrow> string \<Rightarrow> (string \<times> pyval) list option \<Rightarrow> pyval option \<Rightarrow> bool
     \<Rightarrow> pyval action" where
  "run_post_request c path ps data as_json = run_request c POST path as_json ps data"

definition run_patch_request ::
  "client \<Rightarrow> string \<Rightarrow> (string \<times> pyval) list option \<Rightarrow> pyval option \<Rightarrow> bool
     \<Rightarrow> pyval action" where
  "run_patch_request c path ps data as_json = run_request c PATCH path as_json ps data"

subsection \<open>Operations of the service\<close>

text \<open>Arguments that the callers give as text are strings; identifiers that the
  resolver takes out of a decoded answer are passed on as the objects they are.\<close>

definition get_repository_by_name :: "client \<Rightarrow> string \<Rightarrow> pyval action" where
  "get_repository_by_name c name =
     (if name = [] then raise (ValueError (''Cannot get repository by name for - '' @ name))
      else run_get_request c (''git/repositories/'' @ name) None True)"

definition get_pull_request_id_by_branch :: "client \<Rightarrow> pyval \<Rightarrow> string \<Rightarrow> pyval action" where
  "get_pull_request_id_by_branch c repo_id branch =
     (if branch = [] \<or> branch = ''master''
      then raise (ValueError (''invalid pr with source branch of '' @ [CHR 0x27] @ branch
                               @ [CHR 0x27]))
      else
        bind (run_get_request c (''git/repositories/'' @ py_str repo_id @ ''/pullrequests'')
                (Some [(''searchCriteria.status'', PStr ''active''),
                       (''searchCriteria.sourceRefName'', PStr (''refs/heads/'' @ branch)),
                       (''$top'', PInt 1)]) True) (\<lambda>res.
        bind (lift (subscript res ''value'')) (\<lambda>found.
          if truthy found then lift (index0 found) else ret PNone)))"

definition get_top_n_builds_for_repo_and_branch ::
  "client \<Rightarrow> pyval \<Rightarrow> string \<Rightarrow> bool \<Rightarrow> int \<Rightarrow> string \<Rightarrow> pyval action" where
  "get_top_n_builds_for_repo_and_branch c repo_id branch is_pr n build_number =
     (if \<not> truthy repo_id then raise (ValueError (''Invalid repo id - '' @ py_str repo_id))
      else
        let reason_filter = (if is_pr then ''pullRequest'' else ''batchedCI,manual,individualCI'');
            status_filter = (if is_pr then ''active'' else ''completed'');
            branch_name = (if is_pr then branch else ''refs/heads/'' @ branch);
            result_filter = (if is_pr then [] else ''succeeded,partiallySucceeded'')
        in
        bind (run_get_request c ''build/builds''
                (Some [(''reasonFilter'', PStr reason_filter),
                       (''statusFilter'', PStr status_filter),
                       (''resultFilter'', PStr result_filter),
                       (''$top'', PStr (str_int n)),
                       (''branchName'', PStr branch_name),
                       (''repositoryId'', repo_id),
                       (''repositoryType'', PStr ''TfsGit''),
                       (''queryOrder'', PStr ''finishTimeDescending''),
                       (''buildNumber'', PStr (build_number @ ''*''))]) True) (\<lambda>builds.
        bind (lift (py_get builds ''value'')) (\<lambda>found.
          if \<not> truthy found
          then raise (PyException (''No builds for given parameters | branch: '' @ branch
                                    @ '' | repo: '' @ py_str repo_id))
          else lift (subscript builds ''value''))))"

definition get_artifact_details :: "client \<Rightarrow> pyval \<Rightarrow> string \<Rightarrow> pyval action" where
  "get_artifact_details c build_id artifact_name =
     (if \<not> truthy build_id then raise (ValueError (''Invalid build id - '' @ py_str build_id))
      else if artifact_name = []
        then raise (ValueError (''Invalid artifact name - '' @ artifact_name))
      else run_get_request c (''build/builds/'' @ py_str build_id @ ''/artifacts'')
             (Some [(''artifactName'', PStr artifact_name)]) True)"

definition get_branch_by_name :: "client \<Rightarrow> string \<Rightarrow> string \<Rightarrow> pyval action" where
  "get_branch_by_name c repo_id branch_name =
     (if branch_name = [] then raise (ValueError ''Branch name cannot be empty'')
      else run_get_request c (''git/repositories/'' @ repo_id @ ''/refs'')
             (Some [(''filter'', PStr (''heads/'' @ branch_name))]) True)"

definition read_file_from_repo :: "client \<Rightarrow> string \<Rightarrow> string \<Rightarrow> string \<Rightarrow> pyval action" where
  "read_file_from_repo c repo_id path_to_file branch_name =
     (if path_to_file = [] then raise (ValueError ''File path cannot be empty'')
      else run_get_request c (''git/repositories/'' @ repo_id @ ''/items'')
             (Some [(''path'', PStr path_to_file),
                    (''versionDescriptor.version'', PStr branch_name)]) True)"

definition get_definition_by_name :: "client \<Rightarrow> string \<Rightarrow> pyval action" where
  "get_definition_by_name c name =
     (if name = [] then raise (ValueError ''Definition name cannot be empty'')
      else run_get_request c ''build/definitions'' (Some [(''name'', PStr name)]) True)"

definition create_new_branch :: "client \<Rightarrow> string \<Rightarrow> pyval \<Rightarrow> pyval action" where
  "create_new_branch c repo_id data =
     run_post_request c (''git/repositories/'' @ repo_id @ ''/pushes'') None (Some data) True"

definition abandon_pr :: "client \<Rightarrow> string \<Rightarrow> string \<Rightarrow> pyval action" where
  "abandon_pr c repo_id pr_id =
     run_patch_request c (''git/repositories/'' @ repo_id @ ''/pullrequests/'' @ pr_id)
       (Some (AList.update ''api-version'' (PStr ''6.1-preview.1'') (base_params c)))
       (Some (PDict [(''status'', PStr ''abandoned'')])) True"

subsection \<open>The artifact resolver\<close>

text \<open>The \<^verbatim>\<open>for build in top_builds\<close> loop of \<^verbatim>\<open>get_artifact_for_repo_and_branch\<close> and
  the \<^verbatim>\<open>return None, None\<close> after it.\<close>

fun scan_builds :: "client \<Rightarrow> string \<Rightarrow> pyval list \<Rightarrow> (pyval \<times> pyval) action" where
  "scan_builds c artifact_name [] = ret (PNone, PNone)"
| "scan_builds c artifact_name (build # rest) =
     bind (lift (subscript build ''id'')) (\<lambda>build_id.
     bind (get_artifact_details c build_id artifact_name) (\<lambda>artifact.
       if truthy artifact then
         bind (lift (subscript build ''buildNumber'')) (\<lambda>build_number.
         bind (lift (split_first build_number)) (\<lambda>version.
         bind (lift (subscript artifact ''resource'')) (\<lambda>resource.
         bind (lift (subscript resource ''downloadUrl'')) (\<lambda>download_url.
           ret (version, download_url)))))
       else scan_builds c artifact_name rest))"

definition get_artifact_for_repo_and_branch ::
  "client \<Rightarrow> string \<Rightarrow> string \<Rightarrow> string \<Rightarrow> bool \<Rightarrow> string \<Rightarrow> int \<Rightarrow> (pyval \<times> pyval) action" where
  "get_artifact_for_repo_and_branch c artifact_name repository branch is_pr
       build_version_prefix top_n_builds_to_check =
     bind (get_repository_by_name c repository) (\<lambda>repo_response_dict.
     bind (lift (subscript repo_response_dict ''id'')) (\<lambda>repo_id.
     bind (if is_pr then
             bind (get_pull_request_id_by_branch c repo_id branch) (\<lambda>pr.
             bind (lift (subscript pr ''pullRequestId'')) (\<lambda>pr_id.
               ret (''refs/pull/'' @ py_str pr_id @ ''/merge'', [])))
           else ret (branch, build_version_prefix)) (\<lambda>search.
     bind (get_top_n_builds_for_repo_and_branch c repo_id (fst search) is_pr
             top_n_builds_to_check (snd search)) (\<lambda>top_builds.
     bind (lift (py_iter top_builds)) (\<lambda>builds.
       scan_builds c artifact_name builds)))))"

section \<open>Vocabulary of the properties\<close>

text \<open>What an answer of the service says, read with the same operations the client
  applies to it.\<close>

definition succeeded :: "response \<Rightarrow> bool" where
  "succeeded res = (status_code res = 200 \<or> status_code res = 201)"

text \<open>A success whose body decodes to \<open>v\<close>.\<close>

definition answers :: "outcome \<Rightarrow> pyval \<Rightarrow> bool" where
  "answers oc v =
     (case oc of
        TransportError e \<Rightarrow> False
      | Response res \<Rightarrow> succeeded res \<and> decoded res = Some v)"

text \<open>A definitive answer that is neither a success nor a server error.\<close>

definition refused :: "outcome \<Rightarrow> bool" where
  "refused oc =
     (case oc of
        TransportError e \<Rightarrow> False
      | Response res \<Rightarrow> \<not> succeeded res \<and> status_code res < 500)"

text \<open>The repository lookup finds a repository with identifier \<open>repo_id\<close>.\<close>

definition repo_found :: "outcome \<Rightarrow> pyval \<Rightarrow> bool" where
  "repo_found oc repo_id =
     (case oc of
        TransportError e \<Rightarrow> False
      | Response res \<Rightarrow>
          succeeded res \<and>
          (case decoded res of
             None \<Rightarrow> False
           | Some repo \<Rightarrow> subscript repo ''id'' = Returned repo_id))"

text \<open>The pull-request search lists, first, a pull request with identifier \<open>pr_id\<close>.\<close>

definition pr_found :: "outcome \<Rightarrow> pyval \<Rightarrow> bool" where
  "pr_found oc pr_id =
     (case oc of
        TransportError e \<Rightarrow> False
      | Response res \<Rightarrow>
          succeeded res \<and>
          (case decoded res of
             None \<Rightarrow> False
           | Some v \<Rightarrow>
               (case subscript v ''value'' of
                  Raised e \<Rightarrow> False
                | Returned found \<Rightarrow>
                    truthy found \<and>
                    (case index0 found of
                       Raised e \<Rightarrow> False
                     | Returned pr \<Rightarrow> subscript pr ''pullRequestId'' = Returned pr_id))))"

text \<open>The build search lists the builds \<open>builds\<close>, at least one.\<close>

definition builds_found :: "outcome \<Rightarrow> pyval list \<Rightarrow> bool" where
  "builds_found oc builds =
     (case oc of
        TransportError e \<Rightarrow> False
      | Response res \<Rightarrow>
          succeeded res \<and>
          (case decoded res of
             None \<Rightarrow> False
           | Some v \<Rightarrow> py_get v ''value'' = Returned (PList builds) \<and> builds \<noteq> []))"

text \<open>The build search succeeds and lists no build: the \<^verbatim>\<open>value\<close> entry of the
  answer is empty or missing.\<close>

definition no_builds :: "outcome \<Rightarrow> bool" where
  "no_builds oc =
     (case oc of
        TransportError e \<Rightarrow> False
      | Response res \<Rightarrow>
          succeeded res \<and>
          (case decoded res of
             None \<Rightarrow> False
           | Some v \<Rightarrow>
               (case py_get v ''value'' of
                  Raised e \<Rightarrow> False
                | Returned found \<Rightarrow> \<not> truthy found)))"

text \<open>The download URL that an artifact description carries.\<close>

definition download_url_of :: "pyval \<Rightarrow> pyval result" where
  "download_url_of artifact =
     (case subscript artifact ''resource'' of
        Raised e \<Rightarrow> Raised e
      | Returned resource \<Rightarrow> subscript resource ''downloadUrl'')"

text \<open>The artifact lookup of a build finds the artifact, with download URL \<open>u\<close>.\<close>

definition artifact_found :: "outcome \<Rightarrow> pyval \<Rightarrow> bool" where
  "artifact_found oc u =
     (case oc of
        TransportError e \<Rightarrow> False
      | Response res \<Rightarrow>
          succeeded res \<and>
          (case decoded res of
             None \<Rightarrow> False
           | Some artifact \<Rightarrow> truthy artifact \<and> download_url_of artifact = Returned u))"

text \<open>The artifact lookup of a build says that the build has no such artifact: the
  service refuses the lookup (as with 404), or answers with an empty body.\<close>

definition artifact_absent :: "outcome \<Rightarrow> bool" where
  "artifact_absent oc =
     (case oc of
        TransportError e \<Rightarrow> False
      | Response res \<Rightarrow>
          if succeeded res then (case decoded res of None \<Rightarrow> False | Some v \<Rightarrow> \<not> truthy v)
          else status_code res < 500)"

text \<open>An answer in which any artifact description with a resource carries a download
  URL, as the service's artifacts do.\<close>

definition url_present :: "outcome \<Rightarrow> bool" where
  "url_present oc =
     (case oc of
        TransportError e \<Rightarrow> True
      | Response res \<Rightarrow>
          (case decoded res of
             None \<Rightarrow> True
           | Some artifact \<Rightarrow> download_url_of artifact \<noteq> Returned PNone))"

text \<open>The requests of the resolver, as the operations build them.\<close>

definition repository_request :: "client \<Rightarrow> string \<Rightarrow> request" where
  "repository_request c name = request_args c GET (''git/repositories/'' @ name) None None"

definition pull_request_request :: "client \<Rightarrow> pyval \<Rightarrow> string \<Rightarrow> request" where
  "pull_request_request c repo_id branch =
     request_args c GET (''git/repositories/'' @ py_str repo_id @ ''/pullrequests'')
       (Some [(''searchCriteria.status'', PStr ''active''),
              (''searchCriteria.sourceRefName'', PStr (''refs/heads/'' @ branch)),
              (''$top'', PInt 1)]) None"

definition artifact_request :: "client \<Rightarrow> string \<Rightarrow> pyval \<Rightarrow> request" where
  "artifact_request c artifact_name build_id =
     request_args c GET (''build/builds/'' @ py_str build_id @ ''/artifacts'')
       (Some [(''artifactName'', PStr artifact_name)]) None"

text \<open>The world after the client has gone on for a while: some answers of the script
  are used up, and the trace has grown.\<close>

definition later_world :: "world \<Rightarrow> world \<Rightarrow> bool" where
  "later_world w w' = (\<exists>n evs. script w' = drop n (script w) \<and> trace w' = trace w @ evs)"

definition advances :: "'a action \<Rightarrow> bool" where
  "advances m = (\<forall>w. later_world w (snd (m w)))"

text \<open>Sample data for the concrete runs below: a client with the default number of
  attempts, and answers of the service given by status, content and decoded body.\<close>

definition sample_client :: client where
  "sample_client = AzureAPI ''org'' ''proj'' MAX_AZURE_API_RETRIES"

definition http :: "int \<Rightarrow> string \<Rightarrow> pyval option \<Rightarrow> outcome" where
  "http st text v = Response \<lparr>status_code = st, content = text, decoded = v\<rparr>"

definition fresh :: "outcome list \<Rightarrow> world" where
  "fresh answers_to_come = \<lparr>script = answers_to_come, trace = []\<rparr>"

definition build_search_request ::
  "client \<Rightarrow> pyval \<Rightarrow> string \<Rightarrow> bool \<Rightarrow> int \<Rightarrow> string \<Rightarrow> request" where
  "build_search_request c repo_id branch is_pr n build_number =
     request_args c GET ''build/builds''
       (Some [(''reasonFilter'',
                 PStr (if is_pr then ''pullRequest'' else ''batchedCI,manual,individualCI'')),
              (''statusFilter'', PStr (if is_pr then ''active'' else ''completed'')),
              (''resultFilter'', PStr (if is_pr then [] else ''succeeded,partiallySucceeded'')),
              (''$top'', PStr (str_int n)),
              (''branchName'', PStr (if is_pr then branch else ''refs/heads/'' @ branch)),
              (''repositoryId'', repo_id),
              (''repositoryType'', PStr ''TfsGit''),
              (''queryOrder'', PStr ''finishTimeDescending''),
              (''buildNumber'', PStr (build_number @ ''*''))]) None"

text \<open>The steps of the resolver before the build search. Outside PR mode there is the
  repository lookup only; in PR mode the branch must be a proper source branch and the
  pull-request search must find a pull request, whose identifier gives the branch
  reference of the search and clears the build-number prefix.\<close>

definition pr_resolved :: "bool \<Rightarrow> string \<Rightarrow> outcome list \<Rightarrow> pyval \<Rightarrow> bool" where
  "pr_resolved is_pr branch pr_answers pr_id =
     (if is_pr
      then branch \<noteq> [] \<and> branch \<noteq> ''master'' \<and>
           (case pr_answers of [oc] \<Rightarrow> pr_found oc pr_id | _ \<Rightarrow> False)
      else pr_answers = [])"

definition searched_branch :: "bool \<Rightarrow> string \<Rightarrow> pyval \<Rightarrow> string" where
  "searched_branch is_pr branch pr_id =
     (if is_pr then ''refs/pull/'' @ py_str pr_id @ ''/merge'' else branch)"

definition searched_prefix :: "bool \<Rightarrow> string \<Rightarrow> string" where
  "searched_prefix is_pr build_version_prefix = (if is_pr then [] else build_version_prefix)"

definition lookup_requests :: "client \<Rightarrow> string \<Rightarrow> bool \<Rightarrow> pyval \<Rightarrow> string \<Rightarrow> event list" where
  "lookup_requests c repository is_pr repo_id branch =
     Sent (repository_request c repository) #
     (if is_pr then [Sent (pull_request_request c repo_id branch)] else [])"

text \<open>Builds whose identifiers are \<open>ids\<close>, each one usable for an artifact lookup.\<close>

definition have_ids :: "pyval list \<Rightarrow> pyval list \<Rightarrow> bool" where
  "have_ids builds ids =
     list_all2 (\<lambda>build build_id. subscript build ''id'' = Returned build_id \<and> truthy build_id)
       builds ids"

text \<open>Every answer still to come describes its artifact, if any, with a download URL.\<close>

definition urls_present :: "world \<Rightarrow> bool" where
  "urls_present w = list_all url_present (script w)"

definition sample_repo :: outcome where
  "sample_repo = http 200 ''repository''
     (Some (PDict [(''id'', PStr ''guid-1''), (''name'', PStr ''repo'')]))"

definition sample_build :: "int \<Rightarrow> string \<Rightarrow> pyval" where
  "sample_build i number = PDict [(''id'', PInt i), (''buildNumber'', PStr number)]"

definition sample_builds :: outcome where
  "sample_builds = http 200 ''builds''
     (Some (PDict [(''count'', PInt 10),
                   (''value'', PList [sample_build 20 ''1.2.10-a0'', sample_build 19 ''1.2.9-a9'',
                                      sample_build 18 ''1.2.8-a8'', sample_build 17 ''1.2.7-a7'',
                                      sample_build 16 ''1.2.6-abcdef'', sample_build 15 ''1.2.5-a5'',
                                      sample_build 14 ''1.2.4-a4'', sample_build 13 ''1.2.3-a3'',
                                      sample_build 12 ''1.2.2-a2'', sample_build 11 ''1.2.1-a1''])]))"

definition one_build :: outcome where
  "one_build = http 200 ''builds''
     (Some (PDict [(''count'', PInt 1), (''value'', PList [sample_build 7 ''0.9.1-fe'' ])]))"

definition zero_builds :: outcome where
  "zero_builds = http 200 ''builds'' (Some (PDict [(''count'', PInt 0), (''value'', PList [])]))"

definition not_found :: outcome where
  "not_found = http 404 ''not found'' None"

definition sample_artifact :: outcome where
  "sample_artifact = http 200 ''artifact''
     (Some (PDict [(''name'', PStr ''X''),
                   (''resource'', PDict [(''downloadUrl'', PStr ''https://dl/X'')])]))"

definition sample_pr :: outcome where
  "sample_pr = http 200 ''pull requests''
     (Some (PDict [(''count'', PInt 1),
                   (''value'', PList [PDict [(''pullRequestId'', PInt 42)]])]))"

definition no_pr :: outcome where
  "no_pr = http 200 ''pull requests'' (Some (PDict [(''count'', PInt 0), (''value'', PList [])]))"

section \<open>The request executor: basic facts\<close>

lemma script_send [simp]: "script (send args w) = tl (script w)"
  by (simp add: send_def)

lemma trace_send [simp]: "trace (send args w) = trace w @ [Sent args]"
  by (simp add: send_def)

lemma script_sleep [simp]: "script (sleep n w) = script w"
  by (simp add: sleep_def)

lemma trace_sleep [simp]: "trace (sleep n w) = trace w @ [Slept n]"
  by (simp add: sleep_def)

lemma send_Cons:
  "script w = oc # rest \<Longrightarrow> send args w = w\<lparr>script := rest, trace := trace w @ [Sent args]\<rparr>"
  by (simp add: send_def)

lemma next_outcome_Cons [simp]: "script w = oc # rest \<Longrightarrow> next_outcome w = oc"
  by (simp add: next_outcome_def)

lemma run_loop_Done:
  "int retry < retries c \<Longrightarrow> try_body as_json (next_outcome w) = Done v \<Longrightarrow>
   run_loop c args as_json retry w = (Returned v, send args w)"
  by (subst run_loop.simps) simp

lemma run_loop_Failed:
  "int retry < retries c \<Longrightarrow> try_body as_json (next_outcome w) = Failed \<Longrightarrow>
   run_loop c args as_json retry w =
     run_loop c args as_json (Suc retry) (sleep (2 ^ (Suc retry + 1)) (send args w))"
  by (subst run_loop.simps) simp

lemma run_loop_Fell_through:
  "int retry < retries c \<Longrightarrow> try_body as_json (next_outcome w) = Fell_through \<Longrightarrow>
   run_loop c args as_json retry w = run_loop c args as_json retry (send args w)"
  by (subst run_loop.simps) simp

lemma run_loop_exhausted:
  "\<not> int retry < retries c \<Longrightarrow> run_loop c args as_json retry w = (Returned PNone, w)"
  by (subst run_loop.simps) simp

lemma try_body_answers: "answers oc v \<Longrightarrow> try_body True oc = Done v"
  by (auto simp: answers_def succeeded_def try_body_def split: outcome.splits)

lemma try_body_refused: "refused oc \<Longrightarrow> try_body as_json oc = Done PNone"
  by (auto simp: refused_def succeeded_def try_body_def INTERNAL_SERVER_ERROR_def
           split: outcome.splits)

text \<open>A definitive answer ends the call at the first attempt.\<close>

lemma run_request_Done:
  assumes "0 < retries c" and "script w = oc # rest" and "try_body as_json oc = Done v"
  shows "run_request c request_type path as_json ps data w =
           (Returned v,
            w\<lparr>script := rest,
              trace := trace w @ [Sent (request_args c request_type path ps data)]\<rparr>)"
  using assms run_loop_Done[of 0 c as_json w v "request_args c request_type path ps data"]
  by (simp add: run_request_def send_Cons)

lemma run_get_request_answers:
  assumes "0 < retries c" and "script w = oc # rest" and "answers oc v"
  shows "run_get_request c path ps True w =
           (Returned v,
            w\<lparr>script := rest, trace := trace w @ [Sent (request_args c GET path ps None)]\<rparr>)"
  unfolding run_get_request_def
  using assms by (intro run_request_Done try_body_answers)

text \<open>The executor never raises: every exception of an attempt is caught in the loop,
  and the loop's end returns nothing.\<close>

lemma run_loop_returns: "\<exists>v. fst (run_loop c args as_json retry w) = Returned v"
proof (induction c args as_json retry w rule: run_loop.induct)
  case (1 c args as_json retry w)
  show ?case
  proof (cases "int retry < retries c")
    case False
    then show ?thesis by (simp add: run_loop_exhausted)
  next
    case True
    show ?thesis
    proof (cases "try_body as_json (next_outcome w)")
      case (Done v)
      with True show ?thesis by (simp add: run_loop_Done)
    next
      case Failed
      with True "1.IH"(1) show ?thesis by (simp add: run_loop_Failed)
    next
      case Fell_through
      with True "1.IH"(2) show ?thesis by (simp add: run_loop_Fell_through)
    qed
  qed
qed

subsection \<open>Sequencing\<close>

lemma bind_Returned: "m w = (Returned v, w') \<Longrightarrow> bind m f w = f v w'"
  by (simp add: bind_def)

lemma bind_Raised: "m w = (Raised e, w') \<Longrightarrow> bind m f w = (Raised e, w')"
  by (simp add: bind_def)

lemma bind_lift_Returned [simp]: "bind (lift (Returned v)) f w = f v w"
  by (simp add: bind_def lift_def)

lemma bind_lift_Raised [simp]: "bind (lift (Raised e)) f w = (Raised e, w)"
  by (simp add: bind_def lift_def)

lemma bind_ret [simp]: "bind (ret v) f w = f v w"
  by (simp add: bind_def ret_def)

lemma bind_raise [simp]: "bind (raise e) f w = (Raised e, w)"
  by (simp add: bind_def raise_def)

lemma bind_ReturnedE:
  assumes "bind m f w = (Returned x, w')"
  obtains v w1 where "m w = (Returned v, w1)" and "f v w1 = (Returned x, w')"
  using assms by (auto simp: bind_def split: prod.splits result.splits)

subsection \<open>The world only moves forward\<close>

lemma later_world_refl: "later_world w w"
  unfolding later_world_def by (intro exI[of _ 0] exI[of _ "[]"]) simp

lemma later_world_trans:
  assumes "later_world w1 w2" and "later_world w2 w3"
  shows "later_world w1 w3"
proof -
  from assms(1) obtain n evs where a: "script w2 = drop n (script w1)" "trace w2 = trace w1 @ evs"
    unfolding later_world_def by blast
  from assms(2) obtain k evs' where b: "script w3 = drop k (script w2)" "trace w3 = trace w2 @ evs'"
    unfolding later_world_def by blast
  have "script w3 = drop (n + k) (script w1)" using a b by (simp add: add.commute)
  moreover have "trace w3 = trace w1 @ (evs @ evs')" using a b by simp
  ultimately show ?thesis unfolding later_world_def by blast
qed

lemma later_world_send: "later_world w (send args w)"
  unfolding later_world_def by (intro exI[of _ 1] exI[of _ "[Sent args]"]) (simp add: drop_Suc)

lemma later_world_sleep: "later_world w (sleep n w)"
  unfolding later_world_def by (intro exI[of _ 0] exI[of _ "[Slept n]"]) simp

lemma later_world_run_loop: "later_world w (snd (run_loop c args as_json retry w))"
proof (induction c args as_json retry w rule: run_loop.induct)
  case (1 c args as_json retry w)
  show ?case
  proof (cases "int retry < retries c")
    case False
    then show ?thesis by (simp add: run_loop_exhausted later_world_refl)
  next
    case True
    show ?thesis
    proof (cases "try_body as_json (next_outcome w)")
      case (Done v)
      with True show ?thesis by (simp add: run_loop_Done later_world_send)
    next
      case Failed
      have "later_world w (sleep (2 ^ (Suc retry + 1)) (send args w))"
        by (rule later_world_trans[OF later_world_send later_world_sleep])
      with True Failed "1.IH"(1) show ?thesis
        by (auto simp: run_loop_Failed intro: later_world_trans)
    next
      case Fell_through
      with True "1.IH"(2) show ?thesis
        by (auto simp: run_loop_Fell_through intro: later_world_trans later_world_send)
    qed
  qed
qed

lemma advances_ret [intro!]: "advances (ret v)"
  by (simp add: advances_def ret_def later_world_refl)

lemma advances_raise [intro!]: "advances (raise e)"
  by (simp add: advances_def raise_def later_world_refl)

lemma advances_lift [intro!]: "advances (lift r)"
  by (simp add: advances_def lift_def later_world_refl)

lemma advances_bind [intro!]:
  assumes "advances m" and "\<And>v. advances (f v)"
  shows "advances (bind m f)"
  unfolding advances_def
proof
  fix w
  show "later_world w (snd (bind m f w))"
  proof (cases "m w")
    case (Pair r w1)
    have 1: "later_world w w1" using assms(1) Pair by (auto simp: advances_def dest: spec[of _ w])
    show ?thesis
    proof (cases r)
      case (Raised e)
      with Pair 1 show ?thesis by (simp add: bind_def)
    next
      case (Returned v)
      have "later_world w1 (snd (f v w1))" using assms(2) by (simp add: advances_def)
      with Pair Returned 1 show ?thesis by (auto simp: bind_def intro: later_world_trans)
    qed
  qed
qed

lemma advances_if [intro!]: "advances m \<Longrightarrow> advances m' \<Longrightarrow> advances (if b then m else m')"
  by simp

lemma advances_run_request [intro!]: "advances (run_request c request_type path as_json ps data)"
  by (simp add: advances_def run_request_def later_world_run_loop)

lemma advances_run_get_request [intro!]: "advances (run_get_request c path ps as_json)"
  by (simp add: run_get_request_def advances_run_request)

lemma advances_get_artifact_details [intro!]:
  "advances (get_artifact_details c build_id artifact_name)"
  unfolding get_artifact_details_def by (intro advances_if advances_raise advances_run_get_request)

lemma advances_scan_builds [intro!]: "advances (scan_builds c artifact_name builds)"
  by (induction builds) (auto intro!: advances_bind)

lemma advances_get_top_n_builds [intro!]:
  "advances (get_top_n_builds_for_repo_and_branch c repo_id branch is_pr n build_number)"
  unfolding get_top_n_builds_for_repo_and_branch_def Let_def
  by (intro advances_if advances_raise advances_bind advances_run_get_request advances_lift)

section \<open>The steps of the resolver\<close>

lemma repo_foundD:
  assumes "repo_found oc repo_id"
  obtains repo where "answers oc repo" and "subscript repo ''id'' = Returned repo_id"
  using assms
  by (auto simp: repo_found_def answers_def split: outcome.splits option.splits)

lemma pr_foundD:
  assumes "pr_found oc pr_id"
  obtains v found pr where "answers oc v" and "subscript v ''value'' = Returned found"
    and "truthy found" and "index0 found = Returned pr"
    and "subscript pr ''pullRequestId'' = Returned pr_id"
  using assms
  by (auto simp: pr_found_def answers_def split: outcome.splits option.splits result.splits)

lemma py_get_subscript:
  "py_get v k = Returned x \<Longrightarrow> truthy x \<Longrightarrow> subscript v k = Returned x"
  by (cases v) (auto split: option.splits)

lemma builds_foundD:
  assumes "builds_found oc builds"
  obtains v where "answers oc v"
    and "py_get v ''value'' = Returned (PList builds)" and "builds \<noteq> []"
  using assms
  by (auto simp: builds_found_def answers_def split: outcome.splits option.splits)

lemma no_buildsD:
  assumes "no_builds oc"
  obtains v found where "answers oc v"
    and "py_get v ''value'' = Returned found" and "\<not> truthy found"
  using assms
  by (auto simp: no_builds_def answers_def split: outcome.splits option.splits result.splits)

lemma artifact_absentD:
  assumes "artifact_absent oc"
  obtains v where "try_body True oc = Done v" and "\<not> truthy v"
  using assms
  by (auto simp: artifact_absent_def succeeded_def try_body_def INTERNAL_SERVER_ERROR_def
           split: outcome.splits option.splits if_splits)

lemma artifact_foundD:
  assumes "artifact_found oc u"
  obtains artifact where "answers oc artifact" and "truthy artifact"
    and "download_url_of artifact = Returned u"
  using assms
  by (auto simp: artifact_found_def answers_def split: outcome.splits option.splits)

lemma repo_lookup_found:
  assumes "0 < retries c" and "repository \<noteq> []" and "script w = oc # rest"
    and "repo_found oc repo_id"
  shows "bind (get_repository_by_name c repository)
           (\<lambda>repo. bind (lift (subscript repo ''id'')) f) w =
         f repo_id (w\<lparr>script := rest,
                      trace := trace w @ [Sent (repository_request c repository)]\<rparr>)"
proof -
  from assms(4) obtain repo where a: "answers oc repo" "subscript repo ''id'' = Returned repo_id"
    by (rule repo_foundD)
  have "get_repository_by_name c repository w =
          (Returned repo,
           w\<lparr>script := rest, trace := trace w @ [Sent (repository_request c repository)]\<rparr>)"
    using assms(1-3) a(1)
    by (simp add: get_repository_by_name_def repository_request_def run_get_request_answers)
  then show ?thesis using a(2) by (simp add: bind_def lift_def)
qed

lemma pr_lookup_found:
  assumes "0 < retries c" and "branch \<noteq> []" and "branch \<noteq> ''master''"
    and "script w = oc # rest" and "pr_found oc pr_id"
  shows "bind (get_pull_request_id_by_branch c repo_id branch)
           (\<lambda>pr. bind (lift (subscript pr ''pullRequestId'')) f) w =
         f pr_id (w\<lparr>script := rest,
                    trace := trace w @ [Sent (pull_request_request c repo_id branch)]\<rparr>)"
proof -
  from assms(5) obtain v found pr where a: "answers oc v"
      "subscript v ''value'' = Returned found" "truthy found" "index0 found = Returned pr"
      "subscript pr ''pullRequestId'' = Returned pr_id"
    by (rule pr_foundD)
  let ?w1 = "w\<lparr>script := rest,
               trace := trace w @ [Sent (pull_request_request c repo_id branch)]\<rparr>"
  have "run_get_request c (''git/repositories/'' @ py_str repo_id @ ''/pullrequests'')
          (Some [(''searchCriteria.status'', PStr ''active''),
                 (''searchCriteria.sourceRefName'', PStr (''refs/heads/'' @ branch)),
                 (''$top'', PInt 1)]) True w = (Returned v, ?w1)"
    using assms(1,4) a(1) by (simp add: pull_request_request_def run_get_request_answers)
  then have "get_pull_request_id_by_branch c repo_id branch w = (Returned pr, ?w1)"
    using assms(2,3) a(2,3,4) by (simp add: get_pull_request_id_by_branch_def bind_def lift_def)
  then show ?thesis using a(5) by (simp add: bind_def lift_def)
qed

lemma build_search_found:
  assumes "0 < retries c" and "truthy repo_id" and "script w = oc # rest"
    and "builds_found oc builds"
  shows "bind (get_top_n_builds_for_repo_and_branch c repo_id branch is_pr n build_number)
           (\<lambda>top_builds. bind (lift (py_iter top_builds)) f) w =
         f builds (w\<lparr>script := rest,
                     trace := trace w @
                       [Sent (build_search_request c repo_id branch is_pr n build_number)]\<rparr>)"
proof -
  from assms(4) obtain v where a: "answers oc v"
      "py_get v ''value'' = Returned (PList builds)" "builds \<noteq> []"
    by (rule builds_foundD)
  have b: "subscript v ''value'' = Returned (PList builds)"
    using a(2,3) by (intro py_get_subscript) simp_all
  let ?w1 = "w\<lparr>script := rest,
               trace := trace w @
                 [Sent (build_search_request c repo_id branch is_pr n build_number)]\<rparr>"
  have "get_top_n_builds_for_repo_and_branch c repo_id branch is_pr n build_number w =
          (Returned (PList builds), ?w1)"
    using assms(2) a(2,3) b
      run_get_request_answers[OF assms(1,3) a(1), of "''build/builds''"]
    by (simp add: get_top_n_builds_for_repo_and_branch_def build_search_request_def
                  bind_def lift_def)
  then show ?thesis by (simp add: bind_def lift_def)
qed

lemma build_search_empty:
  assumes "0 < retries c" and "truthy repo_id" and "script w = oc # rest" and "no_builds oc"
  shows "get_top_n_builds_for_repo_and_branch c repo_id branch is_pr n build_number w =
           (Raised (PyException (''No builds for given parameters | branch: '' @ branch
                                  @ '' | repo: '' @ py_str repo_id)),
            w\<lparr>script := rest,
              trace := trace w @
                [Sent (build_search_request c repo_id branch is_pr n build_number)]\<rparr>)"
proof -
  from assms(4) obtain v found where a: "answers oc v"
      "py_get v ''value'' = Returned found" "\<not> truthy found"
    by (rule no_buildsD)
  show ?thesis
    using assms(2) a(2,3)
      run_get_request_answers[OF assms(1,3) a(1), of "''build/builds''"]
    by (simp add: get_top_n_builds_for_repo_and_branch_def build_search_request_def
                  bind_def raise_def lift_def)
qed

lemma resolver_reaches_search:
  assumes "0 < retries c" and "repository \<noteq> []"
    and "script w = oc_repo # pr_answers @ tail"
    and "repo_found oc_repo repo_id"
    and "pr_resolved is_pr branch pr_answers pr_id"
  shows "get_artifact_for_repo_and_branch c artifact_name repository branch is_pr
           build_version_prefix n w =
         bind (get_top_n_builds_for_repo_and_branch c repo_id
                 (searched_branch is_pr branch pr_id) is_pr n
                 (searched_prefix is_pr build_version_prefix))
           (\<lambda>top_builds. bind (lift (py_iter top_builds)) (scan_builds c artifact_name))
           (w\<lparr>script := tail,
              trace := trace w @ lookup_requests c repository is_pr repo_id branch\<rparr>)"
proof (cases is_pr)
  case False
  with assms(5) have "pr_answers = []" by (simp add: pr_resolved_def)
  with assms(3) have s: "script w = oc_repo # tail" by simp
  show ?thesis
    unfolding get_artifact_for_repo_and_branch_def
    by (subst repo_lookup_found[OF assms(1,2) s assms(4)])
       (simp add: False searched_branch_def searched_prefix_def lookup_requests_def)
next
  case True
  with assms(5) obtain oc where p: "pr_answers = [oc]" "pr_found oc pr_id"
      "branch \<noteq> []" "branch \<noteq> ''master''"
    by (auto simp: pr_resolved_def split: list.splits)
  from assms(3) p(1) have s: "script w = oc_repo # oc # tail" by simp
  let ?w1 = "w\<lparr>script := oc # tail, trace := trace w @ [Sent (repository_request c repository)]\<rparr>"
  have s1: "script ?w1 = oc # tail" by simp
  show ?thesis
    unfolding get_artifact_for_repo_and_branch_def
    apply (subst repo_lookup_found[OF assms(1,2) s assms(4)])
    apply (simp only: True if_True)
    apply (subst bind_def)
    apply (subst pr_lookup_found[OF assms(1) p(3,4) s1 p(2)])
    apply (simp add: True searched_branch_def searched_prefix_def lookup_requests_def ret_def)
    done
qed

section \<open>The scan of the ranked builds\<close>

lemma split_on_takeWhile: "\<exists>ps. split_on sep s = takeWhile (\<lambda>ch. ch \<noteq> sep) s # ps"
  by (induction s) auto

lemma split_first_PStr:
  "split_first (PStr s) = Returned (PStr (takeWhile (\<lambda>ch. ch \<noteq> CHR ''-'') s))"
  using split_on_takeWhile[of "CHR ''-''" s] by auto

lemma split_first_Returned: "split_first v = Returned x \<Longrightarrow> \<exists>s. x = PStr s"
  by (cases v) (auto split: list.splits)

lemma artifact_lookup:
  assumes "0 < retries c" and "artifact_name \<noteq> []" and "truthy build_id"
    and "script w = oc # rest" and "try_body True oc = Done v"
  shows "get_artifact_details c build_id artifact_name w =
           (Returned v,
            w\<lparr>script := rest,
              trace := trace w @ [Sent (artifact_request c artifact_name build_id)]\<rparr>)"
  using assms(2,3) run_request_Done[OF assms(1,4,5)]
  by (simp add: get_artifact_details_def artifact_request_def run_get_request_def)

lemma bind_artifact_lookup:
  "get_artifact_details c build_id artifact_name w = (Returned v, w') \<Longrightarrow>
   bind (get_artifact_details c build_id artifact_name) f w = f v w'"
  by (rule bind_Returned)

lemma scan_all_absent:
  assumes "0 < retries c" and "artifact_name \<noteq> []"
    and "have_ids builds ids"
    and "length misses = length builds"
    and "\<forall>oc\<in>set misses. artifact_absent oc"
    and "script w = misses @ rest"
  shows "scan_builds c artifact_name builds w =
           (Returned (PNone, PNone),
            w\<lparr>script := rest,
              trace := trace w @ map (\<lambda>i. Sent (artifact_request c artifact_name i)) ids\<rparr>)"
  using assms(3-) unfolding have_ids_def
proof (induction builds ids arbitrary: misses w rule: list_all2_induct)
  case Nil
  then show ?case by (simp add: ret_def)
next
  case (Cons b builds i ids)
  from Cons.prems(1) obtain m ms where m: "misses = m # ms"
    by (cases misses) auto
  with Cons.prems have ms: "length ms = length builds" "\<forall>oc\<in>set ms. artifact_absent oc"
    and am: "artifact_absent m" and s: "script w = m # (ms @ rest)"
    by simp_all
  from am obtain v where v: "try_body True m = Done v" "\<not> truthy v"
    by (rule artifact_absentD)
  let ?w1 = "w\<lparr>script := ms @ rest,
               trace := trace w @ [Sent (artifact_request c artifact_name i)]\<rparr>"
  have look: "get_artifact_details c i artifact_name w = (Returned v, ?w1)"
    using assms(1,2) Cons.hyps(1) s v(1) by (intro artifact_lookup) simp_all
  have "scan_builds c artifact_name (b # builds) w = scan_builds c artifact_name builds ?w1"
    using Cons.hyps(1) v(2) by (simp add: bind_artifact_lookup[OF look])
  also have "\<dots> = (Returned (PNone, PNone),
      ?w1\<lparr>script := rest,
           trace := trace ?w1 @ map (\<lambda>i. Sent (artifact_request c artifact_name i)) ids\<rparr>)"
    using ms by (intro Cons.IH) simp_all
  finally show ?case by simp
qed

lemma scan_first_hit:
  assumes "0 < retries c" and "artifact_name \<noteq> []"
    and "subscript b ''id'' = Returned build_id" and "truthy build_id"
    and "subscript b ''buildNumber'' = Returned (PStr build_number)"
    and "artifact_found hit u"
    and "have_ids earlier ids"
    and "length misses = length earlier"
    and "\<forall>oc\<in>set misses. artifact_absent oc"
    and "script w = misses @ hit # rest"
  shows "scan_builds c artifact_name (earlier @ b # later) w =
           (Returned (PStr (takeWhile (\<lambda>ch. ch \<noteq> CHR ''-'') build_number), u),
            w\<lparr>script := rest,
              trace := trace w @
                map (\<lambda>i. Sent (artifact_request c artifact_name i)) (ids @ [build_id])\<rparr>)"
  using assms(7-) unfolding have_ids_def
proof (induction earlier ids arbitrary: misses w rule: list_all2_induct)
  case Nil
  then have s: "script w = hit # rest" by simp
  from assms(6) obtain artifact where a: "answers hit artifact" "truthy artifact"
      "download_url_of artifact = Returned u"
    by (rule artifact_foundD)
  from a(3) obtain resource where r: "subscript artifact ''resource'' = Returned resource"
      "subscript resource ''downloadUrl'' = Returned u"
    by (auto simp: download_url_of_def split: result.splits)
  let ?w1 = "w\<lparr>script := rest,
               trace := trace w @ [Sent (artifact_request c artifact_name build_id)]\<rparr>"
  have look: "get_artifact_details c build_id artifact_name w = (Returned artifact, ?w1)"
    using assms(1,2,4) s a(1) by (intro artifact_lookup try_body_answers)
  show ?case
    using assms(3,5) a(2) r
    by (simp add: bind_artifact_lookup[OF look] split_first_PStr ret_def del: split_first.simps)
next
  case (Cons e earlier i ids)
  from Cons.prems(1) obtain m ms where m: "misses = m # ms"
    by (cases misses) auto
  with Cons.prems have ms: "length ms = length earlier" "\<forall>oc\<in>set ms. artifact_absent oc"
    and am: "artifact_absent m" and s: "script w = m # (ms @ hit # rest)"
    by simp_all
  from am obtain v where v: "try_body True m = Done v" "\<not> truthy v"
    by (rule artifact_absentD)
  let ?w1 = "w\<lparr>script := ms @ hit # rest,
               trace := trace w @ [Sent (artifact_request c artifact_name i)]\<rparr>"
  have look: "get_artifact_details c i artifact_name w = (Returned v, ?w1)"
    using assms(1,2) Cons.hyps(1) s v(1) by (intro artifact_lookup) simp_all
  have "scan_builds c artifact_name ((e # earlier) @ b # later) w =
          scan_builds c artifact_name (earlier @ b # later) ?w1"
    using Cons.hyps(1) v(2) by (simp add: bind_artifact_lookup[OF look])
  also have "\<dots> =
      (Returned (PStr (takeWhile (\<lambda>ch. ch \<noteq> CHR ''-'') build_number), u),
       ?w1\<lparr>script := rest,
            trace := trace ?w1 @
              map (\<lambda>i. Sent (artifact_request c artifact_name i)) (ids @ [build_id])\<rparr>)"
    using ms by (intro Cons.IH) simp_all
  finally show ?case by simp
qed

lemma resolver_reaches_scan:
  assumes "0 < retries c" and "repository \<noteq> []"
    and "script w = oc_repo # pr_answers @ oc_builds # tail"
    and "repo_found oc_repo repo_id" and "truthy repo_id"
    and "pr_resolved is_pr branch pr_answers pr_id"
    and "builds_found oc_builds builds"
  shows "get_artifact_for_repo_and_branch c artifact_name repository branch is_pr
           build_version_prefix n w =
         scan_builds c artifact_name builds
           (w\<lparr>script := tail,
              trace := trace w @ lookup_requests c repository is_pr repo_id branch @
                [Sent (build_search_request c repo_id (searched_branch is_pr branch pr_id)
                         is_pr n (searched_prefix is_pr build_version_prefix))]\<rparr>)"
proof -
  let ?w1 = "w\<lparr>script := oc_builds # tail,
               trace := trace w @ lookup_requests c repository is_pr repo_id branch\<rparr>"
  have s1: "script ?w1 = oc_builds # tail" by simp
  show ?thesis
    by (subst resolver_reaches_search[OF assms(1,2,3,4,6)])
       (simp add: build_search_found[OF assms(1,5) s1 assms(7)])
qed

lemma resolver_no_builds:
  assumes "0 < retries c" and "repository \<noteq> []"
    and "script w = oc_repo # pr_answers @ oc_builds # tail"
    and "repo_found oc_repo repo_id" and "truthy repo_id"
    and "pr_resolved is_pr branch pr_answers pr_id"
    and "no_builds oc_builds"
  shows "get_artifact_for_repo_and_branch c artifact_name repository branch is_pr
           build_version_prefix n w =
         (Raised (PyException (''No builds for given parameters | branch: ''
                                @ searched_branch is_pr branch pr_id
                                @ '' | repo: '' @ py_str repo_id)),
          w\<lparr>script := tail,
            trace := trace w @ lookup_requests c repository is_pr repo_id branch @
              [Sent (build_search_request c repo_id (searched_branch is_pr branch pr_id)
                       is_pr n (searched_prefix is_pr build_version_prefix))]\<rparr>)"
proof -
  let ?w1 = "w\<lparr>script := oc_builds # tail,
               trace := trace w @ lookup_requests c repository is_pr repo_id branch\<rparr>"
  have s1: "script ?w1 = oc_builds # tail" by simp
  show ?thesis
    by (subst resolver_reaches_search[OF assms(1,2,3,4,6)])
       (simp add: bind_def build_search_empty[OF assms(1,5) s1 assms(7)])
qed

lemma resolver_all_absent:
  assumes "0 < retries c" and "repository \<noteq> []" and "artifact_name \<noteq> []"
    and "script w = oc_repo # pr_answers @ oc_builds # misses @ rest"
    and "repo_found oc_repo repo_id" and "truthy repo_id"
    and "pr_resolved is_pr branch pr_answers pr_id"
    and "builds_found oc_builds builds"
    and "have_ids builds ids"
    and "length misses = length builds"
    and "\<forall>oc\<in>set misses. artifact_absent oc"
  shows "get_artifact_for_repo_and_branch c artifact_name repository branch is_pr
           build_version_prefix n w =
         (Returned (PNone, PNone),
          w\<lparr>script := rest,
            trace := trace w @ lookup_requests c repository is_pr repo_id branch @
              [Sent (build_search_request c repo_id (searched_branch is_pr branch pr_id)
                       is_pr n (searched_prefix is_pr build_version_prefix))] @
              map (\<lambda>i. Sent (artifact_request c artifact_name i)) ids\<rparr>)"
  by (subst resolver_reaches_scan[OF assms(1,2,4,5,6,7,8)])
     (subst scan_all_absent[OF assms(1,3,9,10,11), where rest = rest], simp_all)

section \<open>What the resolver can return\<close>

lemma advancesD: "advances m \<Longrightarrow> m w = (r, w') \<Longrightarrow> later_world w w'"
  by (auto simp: advances_def dest: spec[of _ w])

lemma advances_get_repository_by_name [intro!]: "advances (get_repository_by_name c name)"
  unfolding get_repository_by_name_def by (intro advances_if advances_raise advances_run_get_request)

lemma advances_get_pull_request_id_by_branch [intro!]:
  "advances (get_pull_request_id_by_branch c repo_id branch)"
  unfolding get_pull_request_id_by_branch_def
  by (intro advances_if advances_raise advances_bind advances_run_get_request advances_lift
            advances_ret)

lemma later_world_trace: "later_world w w' \<Longrightarrow> \<exists>evs. trace w' = trace w @ evs"
  by (auto simp: later_world_def)

lemma urls_present_later:
  assumes "later_world w w'" and "urls_present w"
  shows "urls_present w'"
proof -
  from assms(1) obtain n where "script w' = drop n (script w)"
    by (auto simp: later_world_def)
  then have "set (script w') \<subseteq> set (script w)"
    by (simp add: set_drop_subset)
  with assms(2) show ?thesis
    by (auto simp: urls_present_def list_all_iff)
qed

lemma try_body_Done_json:
  "try_body True oc = Done v \<Longrightarrow> v = PNone \<or> (\<exists>res. oc = Response res \<and> decoded res = Some v)"
  by (auto simp: try_body_def split: outcome.splits option.splits if_splits)

lemma next_outcome_in_script: "next_outcome w = Response res \<Longrightarrow> Response res \<in> set (script w)"
  by (auto simp: next_outcome_def split: list.splits)

lemma run_loop_value:
  "run_loop c args as_json retry w = (Returned v, w') \<Longrightarrow> as_json \<Longrightarrow> urls_present w \<Longrightarrow>
   v = PNone \<or> download_url_of v \<noteq> Returned PNone"
proof (induction c args as_json retry w rule: run_loop.induct)
  case (1 c args as_json retry w)
  show ?case
  proof (cases "int retry < retries c")
    case False
    with "1.prems"(1) show ?thesis by (simp add: run_loop_exhausted)
  next
    case True
    show ?thesis
    proof (cases "try_body as_json (next_outcome w)")
      case (Done v0)
      with True "1.prems"(1) have "v0 = v" by (simp add: run_loop_Done)
      with Done "1.prems"(2) have "try_body True (next_outcome w) = Done v" by simp
      then consider "v = PNone"
        | res where "next_outcome w = Response res" "decoded res = Some v"
        using try_body_Done_json by blast
      then show ?thesis
      proof cases
        case 1
        then show ?thesis by simp
      next
        case 2
        then have "url_present (Response res)"
          using "1.prems"(3) next_outcome_in_script[of w res]
          by (simp add: urls_present_def list_all_iff)
        with 2 show ?thesis by (simp add: url_present_def)
      qed
    next
      case Failed
      have "later_world w (sleep (2 ^ (Suc retry + 1)) (send args w))"
        by (rule later_world_trans[OF later_world_send later_world_sleep])
      then have "urls_present (sleep (2 ^ (Suc retry + 1)) (send args w))"
        using "1.prems"(3) by (rule urls_present_later)
      with True Failed "1.IH"(1) "1.prems"(1,2) show ?thesis
        by (simp add: run_loop_Failed)
    next
      case Fell_through
      have "urls_present (send args w)"
        using later_world_send "1.prems"(3) by (rule urls_present_later)
      with True Fell_through "1.IH"(2) "1.prems"(1,2) show ?thesis
        by (simp add: run_loop_Fell_through)
    qed
  qed
qed

lemma get_artifact_details_value:
  assumes "get_artifact_details c build_id artifact_name w = (Returned v, w')"
    and "urls_present w"
  shows "v = PNone \<or> download_url_of v \<noteq> Returned PNone"
proof -
  from assms(1) have "run_loop c (artifact_request c artifact_name build_id) True 0 w =
                        (Returned v, w')"
    by (simp add: get_artifact_details_def raise_def run_get_request_def run_request_def
                  artifact_request_def split: if_splits)
  from run_loop_value[OF this _ assms(2)] show ?thesis by simp
qed

lemma lift_ReturnedE:
  assumes "lift r w = (Returned v, w')"
  obtains "r = Returned v" and "w' = w"
  using assms by (simp add: lift_def)

lemma scan_builds_shape:
  "scan_builds c artifact_name builds w = (Returned (version, download_url), w') \<Longrightarrow>
   urls_present w \<Longrightarrow>
   (version = PNone \<and> download_url = PNone) \<or>
   ((\<exists>s. version = PStr s) \<and> download_url \<noteq> PNone)"
proof (induction builds arbitrary: w)
  case Nil
  then show ?case by (simp add: ret_def)
next
  case (Cons b builds)
  from Cons.prems(1) obtain build_id w1 artifact w2
    where i: "lift (subscript b ''id'') w = (Returned build_id, w1)"
      and a: "get_artifact_details c build_id artifact_name w1 = (Returned artifact, w2)"
      and k: "(if truthy artifact then
                 bind (lift (subscript b ''buildNumber'')) (\<lambda>build_number.
                 bind (lift (split_first build_number)) (\<lambda>version.
                 bind (lift (subscript artifact ''resource'')) (\<lambda>resource.
                 bind (lift (subscript resource ''downloadUrl'')) (\<lambda>download_url.
                   ret (version, download_url)))))
               else scan_builds c artifact_name builds) w2 =
              (Returned (version, download_url), w')"
    by (auto elim!: bind_ReturnedE)
  from i have w1: "w1 = w" by (simp add: lift_def)
  show ?case
  proof (cases "truthy artifact")
    case False
    have "later_world w w2"
      using advances_get_artifact_details a unfolding w1 by (rule advancesD)
    then have "urls_present w2" using Cons.prems(2) by (rule urls_present_later)
    with False k Cons.IH show ?thesis by simp
  next
    case True
    with k obtain build_number resource
      where v: "split_first build_number = Returned version"
        and r: "subscript artifact ''resource'' = Returned resource"
        and u: "subscript resource ''downloadUrl'' = Returned download_url"
      by (auto elim!: bind_ReturnedE lift_ReturnedE simp: ret_def)
    from r u have "download_url_of artifact = Returned download_url"
      by (simp add: download_url_of_def)
    moreover have "artifact = PNone \<or> download_url_of artifact \<noteq> Returned PNone"
      using a Cons.prems(2) unfolding w1 by (rule get_artifact_details_value)
    moreover have "artifact \<noteq> PNone" using True by auto
    ultimately have "download_url \<noteq> PNone" by auto
    with split_first_Returned[OF v] show ?thesis by simp
  qed
qed

lemma resolver_shape:
  assumes "get_artifact_for_repo_and_branch c artifact_name repository branch is_pr
             build_version_prefix n w = (Returned (version, download_url), w')"
    and "urls_present w"
  shows "(version = PNone \<and> download_url = PNone) \<or>
         ((\<exists>s. version = PStr s) \<and> download_url \<noteq> PNone)"
proof -
  from assms(1) obtain repo w1 repo_id w2 search w3 top_builds w4 builds w5
    where 1: "get_repository_by_name c repository w = (Returned repo, w1)"
      and 2: "lift (subscript repo ''id'') w1 = (Returned repo_id, w2)"
      and 3: "(if is_pr then
                 bind (get_pull_request_id_by_branch c repo_id branch) (\<lambda>pr.
                 bind (lift (subscript pr ''pullRequestId'')) (\<lambda>pr_id.
                   ret (''refs/pull/'' @ py_str pr_id @ ''/merge'', [])))
               else ret (branch, build_version_prefix)) w2 = (Returned search, w3)"
      and 4: "get_top_n_builds_for_repo_and_branch c repo_id (fst search) is_pr n (snd search) w3 =
                (Returned top_builds, w4)"
      and 5: "lift (py_iter top_builds) w4 = (Returned builds, w5)"
      and 6: "scan_builds c artifact_name builds w5 = (Returned (version, download_url), w')"
    unfolding get_artifact_for_repo_and_branch_def by (elim bind_ReturnedE) blast
  have "later_world w w1" using advances_get_repository_by_name 1 by (rule advancesD)
  moreover have "later_world w1 w2" using advances_lift 2 by (rule advancesD)
  moreover have "later_world w2 w3"
  proof -
    have "advances (if is_pr then
                 bind (get_pull_request_id_by_branch c repo_id branch) (\<lambda>pr.
                 bind (lift (subscript pr ''pullRequestId'')) (\<lambda>pr_id.
                   ret (''refs/pull/'' @ py_str pr_id @ ''/merge'', [])))
               else ret (branch, build_version_prefix))"
      by (intro advances_if advances_bind advances_get_pull_request_id_by_branch
                advances_lift advances_ret)
    then show ?thesis using 3 by (rule advancesD)
  qed
  moreover have "later_world w3 w4" using advances_get_top_n_builds 4 by (rule advancesD)
  moreover have "later_world w4 w5" using advances_lift 5 by (rule advancesD)
  ultimately have "later_world w w5" by (blast intro: later_world_trans)
  then have "urls_present w5" using assms(2) by (rule urls_present_later)
  with 6 show ?thesis by (rule scan_builds_shape)
qed

section \<open>The first request of a call\<close>

lemma run_loop_first_send:
  assumes "int retry < retries c"
  shows "\<exists>later. trace (snd (run_loop c args as_json retry w)) = trace w @ Sent args # later"
proof (cases "try_body as_json (next_outcome w)")
  case (Done v)
  with assms show ?thesis by (simp add: run_loop_Done)
next
  case Failed
  obtain evs where "trace (snd (run_loop c args as_json (Suc retry)
                                 (sleep (2 ^ (Suc retry + 1)) (send args w)))) =
                    trace (sleep (2 ^ (Suc retry + 1)) (send args w)) @ evs"
    using later_world_trace[OF later_world_run_loop] by blast
  with assms Failed show ?thesis by (simp add: run_loop_Failed)
next
  case Fell_through
  obtain evs where "trace (snd (run_loop c args as_json retry (send args w))) =
                    trace (send args w) @ evs"
    using later_world_trace[OF later_world_run_loop] by blast
  with assms Fell_through show ?thesis by (simp add: run_loop_Fell_through)
qed

lemma bind_first_send:
  assumes "\<exists>later. trace (snd (m w)) = trace w @ ev # later" and "\<And>v. advances (f v)"
  shows "\<exists>later. trace (snd (bind m f w)) = trace w @ ev # later"
proof (cases "m w")
  case (Pair r w1)
  with assms(1) obtain later where l: "trace w1 = trace w @ ev # later" by auto
  show ?thesis
  proof (cases r)
    case (Raised e)
    with Pair l show ?thesis by (simp add: bind_def)
  next
    case (Returned v)
    have "later_world w1 (snd (f v w1))" using assms(2) by (simp add: advances_def)
    then obtain evs where "trace (snd (f v w1)) = trace w1 @ evs"
      using later_world_trace by blast
    with Pair Returned l show ?thesis by (simp add: bind_def)
  qed
qed

lemma build_search_first_send:
  assumes "0 < retries c" and "truthy repo_id" and "\<And>v. advances (f v)"
  shows "\<exists>later.
           trace (snd (bind (get_top_n_builds_for_repo_and_branch c repo_id branch is_pr n
                              build_number) f w)) =
           trace w @ Sent (build_search_request c repo_id branch is_pr n build_number) # later"
proof (rule bind_first_send[OF _ assms(3)])
  have "\<exists>later. trace (snd (run_loop c (build_search_request c repo_id branch is_pr n
                                          build_number) True 0 w)) =
          trace w @ Sent (build_search_request c repo_id branch is_pr n build_number) # later"
    using assms(1) by (intro run_loop_first_send) simp
  then have "\<exists>later. trace (snd (run_get_request c ''build/builds''
                (Some [(''reasonFilter'',
                         PStr (if is_pr then ''pullRequest'' else ''batchedCI,manual,individualCI'')),
                       (''statusFilter'', PStr (if is_pr then ''active'' else ''completed'')),
                       (''resultFilter'',
                         PStr (if is_pr then [] else ''succeeded,partiallySucceeded'')),
                       (''$top'', PStr (str_int n)),
                       (''branchName'', PStr (if is_pr then branch else ''refs/heads/'' @ branch)),
                       (''repositoryId'', repo_id),
                       (''repositoryType'', PStr ''TfsGit''),
                       (''queryOrder'', PStr ''finishTimeDescending''),
                       (''buildNumber'', PStr (build_number @ ''*''))]) True w)) =
          trace w @ Sent (build_search_request c repo_id branch is_pr n build_number) # later"
    by (simp add: run_get_request_def run_request_def build_search_request_def)
  then show "\<exists>later.
           trace (snd (get_top_n_builds_for_repo_and_branch c repo_id branch is_pr n
                        build_number w)) =
           trace w @ Sent (build_search_request c repo_id branch is_pr n build_number) # later"
    unfolding get_top_n_builds_for_repo_and_branch_def Let_def
    using assms(2)
    by (simp only: if_True if_False not_True_eq_False simp_thms)
       (rule bind_first_send, simp, intro allI advances_bind advances_lift advances_if advances_raise)
qed

section \<open>Running the model on concrete data\<close>

lemmas run_defs =
  get_artifact_for_repo_and_branch_def get_repository_by_name_def
  get_pull_request_id_by_branch_def get_top_n_builds_for_repo_and_branch_def
  get_artifact_details_def run_get_request_def run_post_request_def run_patch_request_def
  run_request_def run_loop.simps try_body_def next_outcome_def send_def sleep_def
  bind_def ret_def raise_def lift_def INTERNAL_SERVER_ERROR_def raise_for_status_raises_def
  repository_request_def pull_request_request_def build_search_request_def
  artifact_request_def

lemmas sample_defs =
  sample_client_def AzureAPI_def MAX_AZURE_API_RETRIES_def fresh_def http_def
  sample_repo_def sample_build_def sample_builds_def one_build_def zero_builds_def
  not_found_def sample_artifact_def sample_pr_def no_pr_def

section \<open>Properties of the request executor\<close>

text \<open>
  Claim C9. When the service answers the attempts of one request with the statuses 500,
  500 and 200, and the client is configured for at least three attempts (the default is
  three), the executor returns the decoded body of the 200 answer. It sends the request
  three times and sleeps exactly twice, between the attempts: 4 seconds after the first
  failure and 8 seconds after the second, that is \<open>2 ^ (attempt + 1)\<close>.
\<close>

theorem backoff_500_500_200:
  assumes "3 \<le> retries c"
    and "script w = Response r1 # Response r2 # Response r3 # rest"
    and "status_code r1 = 500" and "status_code r2 = 500" and "status_code r3 = 200"
    and "decoded r3 = Some payload"
  shows "run_request c request_type path True ps data w =
           (Returned payload,
            w\<lparr>script := rest,
              trace := trace w @
                [Sent (request_args c request_type path ps data), Slept 4,
                 Sent (request_args c request_type path ps data), Slept 8,
                 Sent (request_args c request_type path ps data)]\<rparr>)"
proof -
  let ?a = "request_args c request_type path ps data"
  let ?w1 = "sleep 4 (send ?a w)"
  let ?w2 = "sleep 8 (send ?a ?w1)"
  have f1: "try_body True (next_outcome w) = Failed"
    using assms
    by (simp add: try_body_def INTERNAL_SERVER_ERROR_def raise_for_status_raises_def)
  have f2: "try_body True (next_outcome ?w1) = Failed"
    using assms
    by (simp add: next_outcome_def try_body_def INTERNAL_SERVER_ERROR_def
                  raise_for_status_raises_def)
  have f3: "try_body True (next_outcome ?w2) = Done payload"
    using assms by (simp add: next_outcome_def try_body_def)
  have "run_loop c ?a True 0 w = run_loop c ?a True (Suc 0) ?w1"
    using run_loop_Failed[of 0 c True w ?a] f1 assms(1) by simp
  also have "\<dots> = run_loop c ?a True (Suc (Suc 0)) ?w2"
    using run_loop_Failed[of "Suc 0" c True ?w1 ?a] f2 assms(1) by simp
  also have "\<dots> = (Returned payload, send ?a ?w2)"
    using run_loop_Done[of "Suc (Suc 0)" c True ?w2 payload ?a] f3 assms(1) by simp
  finally show ?thesis
    using assms(2) by (simp add: run_request_def send_def sleep_def)
qed

theorem backoff_500_500_200_witness:
  "run_request sample_client GET ''build/builds'' True None None
     (fresh [http 500 ''busy'' None, http 500 ''busy'' None, http 200 ''[7]'' (Some (PList [PInt 7])),
             http 200 ''[8]'' (Some (PList [PInt 8]))]) =
   (Returned (PList [PInt 7]),
    \<lparr>script = [http 200 ''[8]'' (Some (PList [PInt 8]))],
     trace = [Sent (request_args sample_client GET ''build/builds'' None None), Slept 4,
              Sent (request_args sample_client GET ''build/builds'' None None), Slept 8,
              Sent (request_args sample_client GET ''build/builds'' None None)]\<rparr>)"
  using backoff_500_500_200[of sample_client
          "fresh [http 500 ''busy'' None, http 500 ''busy'' None,
                  http 200 ''[7]'' (Some (PList [PInt 7])), http 200 ''[8]'' (Some (PList [PInt 8]))]"
          "\<lparr>status_code = 500, content = ''busy'', decoded = None\<rparr>"
          "\<lparr>status_code = 500, content = ''busy'', decoded = None\<rparr>"
          "\<lparr>status_code = 200, content = ''[7]'', decoded = Some (PList [PInt 7])\<rparr>"
          "[http 200 ''[8]'' (Some (PList [PInt 8]))]" "PList [PInt 7]"
          GET "''build/builds''" None None]
  by (simp add: sample_client_def AzureAPI_def MAX_AZURE_API_RETRIES_def fresh_def http_def)

text \<open>
  Claim C7, as amended. A definitive answer that is neither a success nor a server error
  (any status below 500 other than 200 and 201, such as 404) is never retried, whatever
  the kind of the call (GET, POST or PATCH): the executor returns "no result" at once,
  after the one attempt and without any sleep. A write-type call gets the same "no
  result"; the refusal is not raised to the caller.
\<close>

theorem refusal_not_retried:
  assumes "0 < retries c" and "script w = oc # rest" and "refused oc"
  shows "run_request c request_type path as_json ps data w =
           (Returned PNone,
            w\<lparr>script := rest,
              trace := trace w @ [Sent (request_args c request_type path ps data)]\<rparr>)"
  using assms by (intro run_request_Done try_body_refused)

theorem refusal_not_retried_witness:
  "run_request sample_client PATCH ''git/repositories/r/pullrequests/7'' True None
     (Some (PDict [(''status'', PStr ''abandoned'')]))
     (fresh [http 404 ''no such pull request'' None, http 200 ''[]'' (Some (PList []))]) =
   (Returned PNone,
    \<lparr>script = [http 200 ''[]'' (Some (PList []))],
     trace = [Sent (request_args sample_client PATCH ''git/repositories/r/pullrequests/7'' None
                      (Some (PDict [(''status'', PStr ''abandoned'')])))]\<rparr>)"
  using refusal_not_retried[of sample_client
          "fresh [http 404 ''no such pull request'' None, http 200 ''[]'' (Some (PList []))]"
          "http 404 ''no such pull request'' None" "[http 200 ''[]'' (Some (PList []))]"
          PATCH "''git/repositories/r/pullrequests/7''" True None
          "Some (PDict [(''status'', PStr ''abandoned'')])"]
  by (simp add: sample_client_def AzureAPI_def MAX_AZURE_API_RETRIES_def fresh_def http_def
                refused_def succeeded_def)

text \<open>
  Claim C7 as the spec states it fails for a write-type call: a POST that the service
  answers with 404 and an error body returns "no result"; nothing is raised and the body
  is dropped.
\<close>

theorem post_refusal_counterexample:
  "create_new_branch sample_client ''repo'' (PDict [(''refUpdates'', PList [PStr ''x''])])
     (fresh [http 404 ''repository not found'' None]) =
   (Returned PNone,
    \<lparr>script = [],
     trace = [Sent (request_args sample_client POST ''git/repositories/repo/pushes'' None
                      (Some (PDict [(''refUpdates'', PList [PStr ''x''])])))]\<rparr>)"
  unfolding create_new_branch_def run_post_request_def
  by (rule trans[OF run_request_Done[where oc = "http 404 ''repository not found'' None"
                                      and rest = "[]" and v = PNone]])
     (simp_all add: sample_client_def AzureAPI_def MAX_AZURE_API_RETRIES_def fresh_def http_def
                    try_body_def INTERNAL_SERVER_ERROR_def)

text \<open>
  Claim C1 does not hold of the code. When every attempt fails, with no answer at all or
  with a server error each time, the loop of the executor ends and the function returns
  nothing: no timeout-class failure and no failure with the last body is raised. The
  client with the default three attempts sleeps 4, 8 and 16 seconds and returns
  \<^verbatim>\<open>None\<close>.
\<close>

theorem exhausted_retries_return_none:
  "run_get_request sample_client ''git/repositories/r'' None True
     (fresh [TransportError ''timed out'', TransportError ''timed out'',
             TransportError ''timed out'']) =
   (Returned PNone,
    \<lparr>script = [],
     trace = [Sent (request_args sample_client GET ''git/repositories/r'' None None), Slept 4,
              Sent (request_args sample_client GET ''git/repositories/r'' None None), Slept 8,
              Sent (request_args sample_client GET ''git/repositories/r'' None None), Slept 16]\<rparr>)
   \<and>
   run_get_request sample_client ''git/repositories/r'' None True
     (fresh [http 500 ''boom 1'' None, http 500 ''boom 2'' None, http 503 ''boom 3'' None]) =
   (Returned PNone,
    \<lparr>script = [],
     trace = [Sent (request_args sample_client GET ''git/repositories/r'' None None), Slept 4,
              Sent (request_args sample_client GET ''git/repositories/r'' None None), Slept 8,
              Sent (request_args sample_client GET ''git/repositories/r'' None None), Slept 16]\<rparr>)"
  by (simp add: run_get_request_def run_request_def run_loop.simps try_body_def
                next_outcome_def send_def sleep_def sample_client_def AzureAPI_def
                MAX_AZURE_API_RETRIES_def fresh_def http_def INTERNAL_SERVER_ERROR_def
                raise_for_status_raises_def)

section \<open>Properties of the artifact resolver\<close>

text \<open>
  Claim C5. Let the build search list builds of which the one at rank \<open>k\<close> is \<open>b\<close>, after
  the \<open>k - 1\<close> builds \<open>earlier\<close> and before the builds \<open>later\<close>; let the service say, for
  each earlier build, that it has no such artifact, and for \<open>b\<close> that it has the artifact,
  with download URL \<open>u\<close>. Then the resolver returns the version of \<open>b\<close> (its build number
  up to the first \<open>-\<close>) with \<open>u\<close>. After the lookups and the build search it sends exactly
  \<open>k\<close> artifact requests, one for each of the first \<open>k\<close> builds in rank order, and none
  for a later build; answers after that of \<open>b\<close> are left unread.
\<close>

theorem first_match_at_rank:
  assumes "0 < retries c" and "repository \<noteq> []" and "artifact_name \<noteq> []"
    and "script w = oc_repo # pr_answers @ oc_builds # misses @ hit # rest"
    and "repo_found oc_repo repo_id" and "truthy repo_id"
    and "pr_resolved is_pr branch pr_answers pr_id"
    and "builds_found oc_builds (earlier @ b # later)"
    and "have_ids earlier ids"
    and "length misses = length earlier"
    and "\<forall>oc\<in>set misses. artifact_absent oc"
    and "subscript b ''id'' = Returned build_id" and "truthy build_id"
    and "subscript b ''buildNumber'' = Returned (PStr build_number)"
    and "artifact_found hit u"
  shows "get_artifact_for_repo_and_branch c artifact_name repository branch is_pr
           build_version_prefix n w =
         (Returned (PStr (takeWhile (\<lambda>ch. ch \<noteq> CHR ''-'') build_number), u),
          w\<lparr>script := rest,
            trace := trace w @ lookup_requests c repository is_pr repo_id branch @
              [Sent (build_search_request c repo_id (searched_branch is_pr branch pr_id)
                       is_pr n (searched_prefix is_pr build_version_prefix))] @
              map (\<lambda>i. Sent (artifact_request c artifact_name i)) (ids @ [build_id])\<rparr>)
         \<and> length (ids @ [build_id]) = length earlier + 1"
proof -
  have "length ids = length earlier"
    using assms(9) by (simp add: have_ids_def list_all2_lengthD)
  then show ?thesis
    by (subst resolver_reaches_scan[OF assms(1,2,4,5,6,7,8)])
       (subst scan_first_hit[OF assms(1,3,12,13,14,15,9,10,11), where rest = rest], simp_all)
qed

theorem first_match_at_rank_witness:
  "get_artifact_for_repo_and_branch sample_client ''X'' ''repo'' ''master'' False ''1.2'' 10
     (fresh [sample_repo, sample_builds, not_found, not_found, not_found, not_found,
             sample_artifact, sample_artifact]) =
   (Returned (PStr ''1.2.6'', PStr ''https://dl/X''),
    \<lparr>script = [sample_artifact],
     trace = [Sent (repository_request sample_client ''repo''),
              Sent (build_search_request sample_client (PStr ''guid-1'') ''master'' False 10 ''1.2''),
              Sent (artifact_request sample_client ''X'' (PInt 20)),
              Sent (artifact_request sample_client ''X'' (PInt 19)),
              Sent (artifact_request sample_client ''X'' (PInt 18)),
              Sent (artifact_request sample_client ''X'' (PInt 17)),
              Sent (artifact_request sample_client ''X'' (PInt 16))]\<rparr>)"
  using first_match_at_rank[where c = sample_client and repository = "''repo''"
      and artifact_name = "''X''" and is_pr = False and branch = "''master''"
      and build_version_prefix = "''1.2''" and n = 10
      and w = "fresh [sample_repo, sample_builds, not_found, not_found, not_found, not_found,
                      sample_artifact, sample_artifact]"
      and oc_repo = sample_repo and pr_answers = "[]" and oc_builds = sample_builds
      and misses = "[not_found, not_found, not_found, not_found]" and hit = sample_artifact
      and rest = "[sample_artifact]" and repo_id = "PStr ''guid-1''" and pr_id = PNone
      and earlier = "[sample_build 20 ''1.2.10-a0'', sample_build 19 ''1.2.9-a9'',
                      sample_build 18 ''1.2.8-a8'', sample_build 17 ''1.2.7-a7'']"
      and b = "sample_build 16 ''1.2.6-abcdef''"
      and later = "[sample_build 15 ''1.2.5-a5'', sample_build 14 ''1.2.4-a4'',
                    sample_build 13 ''1.2.3-a3'', sample_build 12 ''1.2.2-a2'',
                    sample_build 11 ''1.2.1-a1'']"
      and ids = "[PInt 20, PInt 19, PInt 18, PInt 17]" and build_id = "PInt 16"
      and build_number = "''1.2.6-abcdef''" and u = "PStr ''https://dl/X''"]
  by (simp add: sample_client_def AzureAPI_def MAX_AZURE_API_RETRIES_def fresh_def http_def
                sample_repo_def sample_builds_def sample_build_def not_found_def
                sample_artifact_def repo_found_def succeeded_def pr_resolved_def
                builds_found_def have_ids_def artifact_absent_def artifact_found_def
                download_url_of_def lookup_requests_def searched_branch_def
                searched_prefix_def)

text \<open>
  Claim C4. When the build search succeeds and lists no build, the resolver raises the
  no-builds error (a plain \<^verbatim>\<open>Exception\<close> naming the searched branch and the repository).
  When the search lists builds and the service says of each that it has no such artifact,
  the resolver instead returns \<open>(None, None)\<close> and raises nothing. The two outcomes
  differ: one is raised, the other returned.
\<close>

theorem zero_builds_raises_and_no_artifact_returns:
  assumes "0 < retries c" and "repository \<noteq> []"
    and "script w = oc_repo # pr_answers @ oc_builds # tail"
    and "repo_found oc_repo repo_id" and "truthy repo_id"
    and "pr_resolved is_pr branch pr_answers pr_id"
  shows "(no_builds oc_builds \<longrightarrow>
            get_artifact_for_repo_and_branch c artifact_name repository branch is_pr
              build_version_prefix n w =
            (Raised (PyException (''No builds for given parameters | branch: ''
                                   @ searched_branch is_pr branch pr_id
                                   @ '' | repo: '' @ py_str repo_id)),
             w\<lparr>script := tail,
               trace := trace w @ lookup_requests c repository is_pr repo_id branch @
                 [Sent (build_search_request c repo_id (searched_branch is_pr branch pr_id)
                          is_pr n (searched_prefix is_pr build_version_prefix))]\<rparr>))
       \<and> (builds_found oc_builds builds \<and> have_ids builds ids \<and> artifact_name \<noteq> [] \<and>
            tail = misses @ rest \<and> length misses = length builds \<and>
            (\<forall>oc\<in>set misses. artifact_absent oc) \<longrightarrow>
            get_artifact_for_repo_and_branch c artifact_name repository branch is_pr
              build_version_prefix n w =
            (Returned (PNone, PNone),
             w\<lparr>script := rest,
               trace := trace w @ lookup_requests c repository is_pr repo_id branch @
                 [Sent (build_search_request c repo_id (searched_branch is_pr branch pr_id)
                          is_pr n (searched_prefix is_pr build_version_prefix))] @
                 map (\<lambda>i. Sent (artifact_request c artifact_name i)) ids\<rparr>))"
proof (intro conjI impI)
  assume "no_builds oc_builds"
  with assms show "get_artifact_for_repo_and_branch c artifact_name repository branch is_pr
              build_version_prefix n w =
            (Raised (PyException (''No builds for given parameters | branch: ''
                                   @ searched_branch is_pr branch pr_id
                                   @ '' | repo: '' @ py_str repo_id)),
             w\<lparr>script := tail,
               trace := trace w @ lookup_requests c repository is_pr repo_id branch @
                 [Sent (build_search_request c repo_id (searched_branch is_pr branch pr_id)
                          is_pr n (searched_prefix is_pr build_version_prefix))]\<rparr>)"
    by (rule resolver_no_builds)
next
  assume a: "builds_found oc_builds builds \<and> have_ids builds ids \<and> artifact_name \<noteq> [] \<and>
            tail = misses @ rest \<and> length misses = length builds \<and>
            (\<forall>oc\<in>set misses. artifact_absent oc)"
  then have s: "script w = oc_repo # pr_answers @ oc_builds # misses @ rest"
    using assms(3) by simp
  from a show "get_artifact_for_repo_and_branch c artifact_name repository branch is_pr
              build_version_prefix n w =
            (Returned (PNone, PNone),
             w\<lparr>script := rest,
               trace := trace w @ lookup_requests c repository is_pr repo_id branch @
                 [Sent (build_search_request c repo_id (searched_branch is_pr branch pr_id)
                          is_pr n (searched_prefix is_pr build_version_prefix))] @
                 map (\<lambda>i. Sent (artifact_request c artifact_name i)) ids\<rparr>)"
    by (intro resolver_all_absent[OF assms(1,2) _ s assms(4,5,6)]) simp_all
qed

theorem zero_builds_raises_and_no_artifact_returns_witness:
  "get_artifact_for_repo_and_branch sample_client ''X'' ''repo'' ''feature/x'' True ''1.2'' 300
     (fresh [sample_repo, sample_pr, zero_builds]) =
   (Raised (PyException
      ''No builds for given parameters | branch: refs/pull/42/merge | repo: guid-1''),
    \<lparr>script = [],
     trace = [Sent (repository_request sample_client ''repo''),
              Sent (pull_request_request sample_client (PStr ''guid-1'') ''feature/x''),
              Sent (build_search_request sample_client (PStr ''guid-1'') ''refs/pull/42/merge''
                      True 300 [])]\<rparr>)
   \<and>
   get_artifact_for_repo_and_branch sample_client ''X'' ''repo'' ''feature/x'' True ''1.2'' 300
     (fresh [sample_repo, sample_pr, one_build, not_found, sample_artifact]) =
   (Returned (PNone, PNone),
    \<lparr>script = [sample_artifact],
     trace = [Sent (repository_request sample_client ''repo''),
              Sent (pull_request_request sample_client (PStr ''guid-1'') ''feature/x''),
              Sent (build_search_request sample_client (PStr ''guid-1'') ''refs/pull/42/merge''
                      True 300 []),
              Sent (artifact_request sample_client ''X'' (PInt 7))]\<rparr>)"
proof -
  have 1: "get_artifact_for_repo_and_branch sample_client ''X'' ''repo'' ''feature/x'' True
             ''1.2'' 300 (fresh [sample_repo, sample_pr, zero_builds]) =
           (Raised (PyException
              ''No builds for given parameters | branch: refs/pull/42/merge | repo: guid-1''),
            \<lparr>script = [],
             trace = [Sent (repository_request sample_client ''repo''),
                      Sent (pull_request_request sample_client (PStr ''guid-1'') ''feature/x''),
                      Sent (build_search_request sample_client (PStr ''guid-1'')
                              ''refs/pull/42/merge'' True 300 [])]\<rparr>)"
    using zero_builds_raises_and_no_artifact_returns[where c = sample_client
        and repository = "''repo''" and artifact_name = "''X''" and is_pr = True
        and branch = "''feature/x''" and build_version_prefix = "''1.2''" and n = 300
        and w = "fresh [sample_repo, sample_pr, zero_builds]"
        and oc_repo = sample_repo and pr_answers = "[sample_pr]" and oc_builds = zero_builds
        and tail = "[]" and repo_id = "PStr ''guid-1''" and pr_id = "PInt 42"
        and builds = "[]" and ids = "[]" and misses = "[]" and rest = "[]"]
    by (simp add: str_int_def digits_of.simps sample_client_def AzureAPI_def MAX_AZURE_API_RETRIES_def fresh_def
                  http_def sample_repo_def sample_pr_def zero_builds_def repo_found_def
                  succeeded_def pr_resolved_def pr_found_def no_builds_def builds_found_def
                  lookup_requests_def searched_branch_def searched_prefix_def)
  have 2: "get_artifact_for_repo_and_branch sample_client ''X'' ''repo'' ''feature/x'' True
             ''1.2'' 300 (fresh [sample_repo, sample_pr, one_build, not_found, sample_artifact]) =
           (Returned (PNone, PNone),
            \<lparr>script = [sample_artifact],
             trace = [Sent (repository_request sample_client ''repo''),
                      Sent (pull_request_request sample_client (PStr ''guid-1'') ''feature/x''),
                      Sent (build_search_request sample_client (PStr ''guid-1'')
                              ''refs/pull/42/merge'' True 300 []),
                      Sent (artifact_request sample_client ''X'' (PInt 7))]\<rparr>)"
    using zero_builds_raises_and_no_artifact_returns[where c = sample_client
        and repository = "''repo''" and artifact_name = "''X''" and is_pr = True
        and branch = "''feature/x''" and build_version_prefix = "''1.2''" and n = 300
        and w = "fresh [sample_repo, sample_pr, one_build, not_found, sample_artifact]"
        and oc_repo = sample_repo and pr_answers = "[sample_pr]" and oc_builds = one_build
        and tail = "[not_found, sample_artifact]" and repo_id = "PStr ''guid-1''"
        and pr_id = "PInt 42" and builds = "[sample_build 7 ''0.9.1-fe'']" and ids = "[PInt 7]"
        and misses = "[not_found]" and rest = "[sample_artifact]"]
    by (simp add: str_int_def digits_of.simps sample_client_def AzureAPI_def MAX_AZURE_API_RETRIES_def fresh_def
                  http_def sample_repo_def sample_pr_def one_build_def sample_build_def
                  not_found_def repo_found_def succeeded_def pr_resolved_def pr_found_def
                  no_builds_def builds_found_def have_ids_def artifact_absent_def
                  lookup_requests_def searched_branch_def searched_prefix_def)
  from 1 2 show ?thesis by (rule conjI)
qed



text \<open>
  Claim C8. In PR mode, when the repository lookup finds the repository and the
  pull-request search lists, first, a pull request with identifier 42, the next request
  of the resolver is the build search with branch reference \<^verbatim>\<open>refs/pull/42/merge\<close> and
  the build-number filter \<^verbatim>\<open>*\<close>, the wildcard after an empty prefix, whatever build
  version prefix the caller gave.
\<close>

theorem pr_mode_search_uses_merge_ref:
  assumes "0 < retries c" and "repository \<noteq> []"
    and "branch \<noteq> []" and "branch \<noteq> ''master''"
    and "script w = oc_repo # oc_pr # tail"
    and "repo_found oc_repo repo_id" and "truthy repo_id"
    and "pr_found oc_pr (PInt 42)"
  shows "\<exists>later.
           trace (snd (get_artifact_for_repo_and_branch c artifact_name repository branch True
                         build_version_prefix n w)) =
           trace w @
             [Sent (repository_request c repository),
              Sent (pull_request_request c repo_id branch),
              Sent (request_args c GET ''build/builds''
                      (Some [(''reasonFilter'', PStr ''pullRequest''),
                             (''statusFilter'', PStr ''active''),
                             (''resultFilter'', PStr []),
                             (''$top'', PStr (str_int n)),
                             (''branchName'', PStr ''refs/pull/42/merge''),
                             (''repositoryId'', repo_id),
                             (''repositoryType'', PStr ''TfsGit''),
                             (''queryOrder'', PStr ''finishTimeDescending''),
                             (''buildNumber'', PStr ''*'')]) None)] @ later"
proof -
  let ?w1 = "w\<lparr>script := tail,
               trace := trace w @ lookup_requests c repository True repo_id branch\<rparr>"
  have p: "pr_resolved True branch [oc_pr] (PInt 42)"
    using assms(3,4,8) by (simp add: pr_resolved_def)
  have s: "script w = oc_repo # [oc_pr] @ tail" using assms(5) by simp
  have b: "searched_branch True branch (PInt 42) = ''refs/pull/42/merge''"
    by (simp add: searched_branch_def str_int_def digits_of.simps)
  have "\<exists>later.
          trace (snd (bind (get_top_n_builds_for_repo_and_branch c repo_id ''refs/pull/42/merge''
                              True n [])
                        (\<lambda>top_builds. bind (lift (py_iter top_builds))
                                         (scan_builds c artifact_name)) ?w1)) =
          trace ?w1 @ Sent (build_search_request c repo_id ''refs/pull/42/merge'' True n []) # later"
    using assms(1,7)
    by (rule build_search_first_send) (intro advances_bind advances_lift advances_scan_builds)
  then show ?thesis
    by (simp add: resolver_reaches_search[OF assms(1,2) s assms(6) p] b searched_prefix_def
                  lookup_requests_def build_search_request_def)
qed

theorem pr_mode_search_uses_merge_ref_witness:
  "\<exists>later.
     trace (snd (get_artifact_for_repo_and_branch sample_client ''X'' ''repo'' ''feature/x'' True
                   ''9.9'' 300 (fresh [sample_repo, sample_pr, one_build, sample_artifact]))) =
     [Sent (repository_request sample_client ''repo''),
      Sent (pull_request_request sample_client (PStr ''guid-1'') ''feature/x''),
      Sent (request_args sample_client GET ''build/builds''
              (Some [(''reasonFilter'', PStr ''pullRequest''),
                     (''statusFilter'', PStr ''active''),
                     (''resultFilter'', PStr []),
                     (''$top'', PStr ''300''),
                     (''branchName'', PStr ''refs/pull/42/merge''),
                     (''repositoryId'', PStr ''guid-1''),
                     (''repositoryType'', PStr ''TfsGit''),
                     (''queryOrder'', PStr ''finishTimeDescending''),
                     (''buildNumber'', PStr ''*'')]) None)] @ later"
  using pr_mode_search_uses_merge_ref[where c = sample_client and repository = "''repo''"
      and branch = "''feature/x''" and artifact_name = "''X''"
      and build_version_prefix = "''9.9''" and n = 300
      and w = "fresh [sample_repo, sample_pr, one_build, sample_artifact]"
      and oc_repo = sample_repo and oc_pr = sample_pr and tail = "[one_build, sample_artifact]"
      and repo_id = "PStr ''guid-1''"]
  by (simp add: sample_client_def AzureAPI_def MAX_AZURE_API_RETRIES_def fresh_def http_def
                sample_repo_def sample_pr_def repo_found_def succeeded_def pr_found_def
                str_int_def digits_of.simps)

section \<open>Validation of arguments\<close>

text \<open>
  Claim C10, as amended. Every operation checks its own required arguments before it
  sends its own request: with an empty repository name, an empty branch name for the
  pull-request search, an empty build identifier, an empty artifact name, an empty file
  path or an empty definition name, the operation raises \<^verbatim>\<open>ValueError\<close> and the world
  is unchanged, so no request was sent. The resolver checks the repository name in this
  way. It does not check the artifact name itself: with an empty artifact name it fails
  with the \<^verbatim>\<open>ValueError\<close> of the first artifact lookup, after the repository lookup, the
  pull-request search of PR mode and the build search have been sent.
\<close>

theorem validation_before_own_request:
  "get_repository_by_name c [] w =
     (Raised (ValueError ''Cannot get repository by name for - ''), w)
   \<and> get_pull_request_id_by_branch c repo_id [] w =
     (Raised (ValueError (''invalid pr with source branch of '' @ [CHR 0x27, CHR 0x27])), w)
   \<and> get_artifact_details c (PStr []) artifact_name w =
     (Raised (ValueError ''Invalid build id - ''), w)
   \<and> (\<exists>msg. get_artifact_details c build_id [] w = (Raised (ValueError msg), w))
   \<and> read_file_from_repo c repo [] branch_name w =
     (Raised (ValueError ''File path cannot be empty''), w)
   \<and> get_definition_by_name c [] w =
     (Raised (ValueError ''Definition name cannot be empty''), w)
   \<and> get_artifact_for_repo_and_branch c artifact_name [] branch is_pr build_version_prefix n w =
     (Raised (ValueError ''Cannot get repository by name for - ''), w)
   \<and> (0 < retries c \<and> repository \<noteq> [] \<and>
      script w = oc_repo # pr_answers @ oc_builds # rest \<and>
      repo_found oc_repo found_id \<and> truthy found_id \<and>
      pr_resolved is_pr branch pr_answers pr_id \<and>
      builds_found oc_builds (b # later) \<and>
      subscript b ''id'' = Returned first_id \<and> truthy first_id \<longrightarrow>
      get_artifact_for_repo_and_branch c [] repository branch is_pr build_version_prefix n w =
        (Raised (ValueError ''Invalid artifact name - ''),
         w\<lparr>script := rest,
           trace := trace w @ lookup_requests c repository is_pr found_id branch @
             [Sent (build_search_request c found_id (searched_branch is_pr branch pr_id)
                      is_pr n (searched_prefix is_pr build_version_prefix))]\<rparr>))"
proof (intro conjI impI)
  show "get_repository_by_name c [] w =
          (Raised (ValueError ''Cannot get repository by name for - ''), w)"
    by (simp add: get_repository_by_name_def raise_def)
  show "get_pull_request_id_by_branch c repo_id [] w =
          (Raised (ValueError (''invalid pr with source branch of '' @ [CHR 0x27, CHR 0x27])), w)"
    by (simp add: get_pull_request_id_by_branch_def raise_def)
  show "get_artifact_details c (PStr []) artifact_name w =
          (Raised (ValueError ''Invalid build id - ''), w)"
    by (simp add: get_artifact_details_def raise_def)
  show "\<exists>msg. get_artifact_details c build_id [] w = (Raised (ValueError msg), w)"
    by (simp add: get_artifact_details_def raise_def)
  show "read_file_from_repo c repo [] branch_name w =
          (Raised (ValueError ''File path cannot be empty''), w)"
    by (simp add: read_file_from_repo_def raise_def)
  show "get_definition_by_name c [] w =
          (Raised (ValueError ''Definition name cannot be empty''), w)"
    by (simp add: get_definition_by_name_def raise_def)
  show "get_artifact_for_repo_and_branch c artifact_name [] branch is_pr build_version_prefix n w =
          (Raised (ValueError ''Cannot get repository by name for - ''), w)"
    by (simp add: get_artifact_for_repo_and_branch_def get_repository_by_name_def)
next
  assume a: "0 < retries c \<and> repository \<noteq> [] \<and>
      script w = oc_repo # pr_answers @ oc_builds # rest \<and>
      repo_found oc_repo found_id \<and> truthy found_id \<and>
      pr_resolved is_pr branch pr_answers pr_id \<and>
      builds_found oc_builds (b # later) \<and>
      subscript b ''id'' = Returned first_id \<and> truthy first_id"
  then have h: "0 < retries c" "repository \<noteq> []"
      "script w = oc_repo # pr_answers @ oc_builds # rest"
      "repo_found oc_repo found_id" "truthy found_id"
      "pr_resolved is_pr branch pr_answers pr_id"
      "builds_found oc_builds (b # later)"
    and i: "subscript b ''id'' = Returned first_id" "truthy first_id"
    by blast+
  show "get_artifact_for_repo_and_branch c [] repository branch is_pr build_version_prefix n w =
        (Raised (ValueError ''Invalid artifact name - ''),
         w\<lparr>script := rest,
           trace := trace w @ lookup_requests c repository is_pr found_id branch @
             [Sent (build_search_request c found_id (searched_branch is_pr branch pr_id)
                      is_pr n (searched_prefix is_pr build_version_prefix))]\<rparr>)"
    using i by (simp add: resolver_reaches_scan[OF h] get_artifact_details_def)
qed

theorem validation_before_own_request_witness:
  "get_artifact_for_repo_and_branch sample_client [] ''repo'' ''feature/x'' True ''*'' 300
     (fresh [sample_repo, sample_pr, one_build, sample_artifact]) =
   (Raised (ValueError ''Invalid artifact name - ''),
    \<lparr>script = [sample_artifact],
     trace = [Sent (repository_request sample_client ''repo''),
              Sent (pull_request_request sample_client (PStr ''guid-1'') ''feature/x''),
              Sent (build_search_request sample_client (PStr ''guid-1'') ''refs/pull/42/merge''
                      True 300 [])]\<rparr>)"
  using validation_before_own_request[where c = sample_client and repository = "''repo''"
      and branch = "''feature/x''" and is_pr = True and build_version_prefix = "''*''"
      and n = 300 and w = "fresh [sample_repo, sample_pr, one_build, sample_artifact]"
      and oc_repo = sample_repo and pr_answers = "[sample_pr]" and oc_builds = one_build
      and rest = "[sample_artifact]" and found_id = "PStr ''guid-1''" and pr_id = "PInt 42"
      and b = "sample_build 7 ''0.9.1-fe''" and later = "[]" and first_id = "PInt 7"]
  by (simp add: str_int_def digits_of.simps sample_client_def AzureAPI_def
                MAX_AZURE_API_RETRIES_def fresh_def http_def sample_repo_def sample_pr_def
                one_build_def sample_build_def repo_found_def succeeded_def pr_resolved_def
                pr_found_def builds_found_def lookup_requests_def searched_branch_def
                searched_prefix_def)

text \<open>
  Claim C10 as the spec states it fails for the resolver: called with an empty artifact
  name, it sends the repository lookup and the build search, and only then raises.
\<close>

theorem empty_artifact_name_counterexample:
  "get_artifact_for_repo_and_branch sample_client [] ''repo'' ''master'' False ''*'' 300
     (fresh [sample_repo, one_build]) =
   (Raised (ValueError ''Invalid artifact name - ''),
    \<lparr>script = [],
     trace = [Sent (repository_request sample_client ''repo''),
              Sent (build_search_request sample_client (PStr ''guid-1'') ''master''
                      False 300 ''*'')]\<rparr>)"
  by (simp add: run_defs sample_defs str_int_def digits_of.simps)

section \<open>Missing results that make the resolver crash\<close>

text \<open>
  Claim C2 does not hold of the code. In PR mode, when the pull-request search succeeds
  and lists no active pull request, \<^verbatim>\<open>get_pull_request_id_by_branch\<close> returns
  \<^verbatim>\<open>None\<close>, and the resolver subscripts that \<^verbatim>\<open>None\<close>: it raises \<^verbatim>\<open>TypeError\<close> instead
  of returning \<open>(None, None)\<close>. The lookup on its own does return \<^verbatim>\<open>None\<close>.
\<close>

theorem no_active_pr_raises_type_error:
  "get_pull_request_id_by_branch sample_client (PStr ''guid-1'') ''feature/x''
     (fresh [no_pr]) =
   (Returned PNone,
    \<lparr>script = [],
     trace = [Sent (pull_request_request sample_client (PStr ''guid-1'') ''feature/x'')]\<rparr>)
   \<and>
   get_artifact_for_repo_and_branch sample_client ''X'' ''repo'' ''feature/x'' True ''*'' 300
     (fresh [sample_repo, no_pr, sample_builds]) =
   (Raised TypeError,
    \<lparr>script = [sample_builds],
     trace = [Sent (repository_request sample_client ''repo''),
              Sent (pull_request_request sample_client (PStr ''guid-1'') ''feature/x'')]\<rparr>)"
  by (simp add: run_defs sample_defs)

text \<open>
  Claim C6 does not hold of the code. With an empty repository name the resolver raises
  \<^verbatim>\<open>ValueError\<close> before any request. But when the service has no repository of the
  given name and answers the lookup with 404, the executor returns \<^verbatim>\<open>None\<close> and the
  resolver subscripts it with \<^verbatim>\<open>'id'\<close>: the failure is a \<^verbatim>\<open>TypeError\<close>, not a
  not-found error.
\<close>

theorem unknown_repository_raises_type_error:
  "get_artifact_for_repo_and_branch sample_client ''X'' [] ''master'' False ''*'' 300
     (fresh [sample_repo]) =
   (Raised (ValueError ''Cannot get repository by name for - ''), fresh [sample_repo])
   \<and>
   get_artifact_for_repo_and_branch sample_client ''X'' ''nosuch'' ''master'' False ''*'' 300
     (fresh [not_found, sample_builds]) =
   (Raised TypeError,
    \<lparr>script = [sample_builds],
     trace = [Sent (repository_request sample_client ''nosuch'')]\<rparr>)"
  by (simp add: run_defs sample_defs)

end
